theory Spec2Isabelle
  imports Complex_Main "HOL-Library.Sublist"
begin

section \<open>Python values, exceptions and dictionaries\<close>

text \<open>
  The values \<^verbatim>\<open>json.loads\<close> produces, and that the pipeline passes around untyped.
  A Python \<^verbatim>\<open>str\<close> is a \<^typ>\<open>string\<close>, one \<^typ>\<open>char\<close> per code point (so the
  model covers text in the range of one byte per code point); a \<^verbatim>\<open>dict\<close> is an
  association list in insertion order.
\<close>

datatype json =
    JNull
  | JBool bool
  | JInt int
  | JFloat real
  | JStr string
  | JArr "json list"
  | JObj "(string \<times> json) list"

type_synonym 'v dict = "(string \<times> 'v) list"

text \<open>\<^verbatim>\<open>d[k] = v\<close>: an existing key keeps its place, a new key goes last.\<close>

fun dict_set :: "'v dict \<Rightarrow> string \<Rightarrow> 'v \<Rightarrow> 'v dict" where
  "dict_set [] k v = [(k, v)]"
| "dict_set ((k', v') # d) k v =
     (if k' = k then (k, v) # d else (k', v') # dict_set d k v)"

text \<open>
  Whitespace as \<^verbatim>\<open>str.strip\<close>, \<^verbatim>\<open>str.isspace\<close> and the pattern \<^verbatim>\<open>\s\<close> of
  \<^verbatim>\<open>re\<close> see it on \<^verbatim>\<open>str\<close>: the code points 9 to 13, 28 to 32, 133 and 160 (and
  others beyond the range of a \<^typ>\<open>char\<close>).
\<close>

definition is_space :: "char \<Rightarrow> bool" where
  "is_space ch =
     (let n = (of_char ch :: nat)
      in (9 \<le> n \<and> n \<le> 13) \<or> (28 \<le> n \<and> n \<le> 32) \<or> n = 133 \<or> n = 160)"

definition strip :: "string \<Rightarrow> string" where
  "strip s = rev (dropWhile is_space (rev (dropWhile is_space s)))"

text \<open>
  An httpx response, as far as the client reads it: \<^verbatim>\<open>status_code\<close>,
  \<^verbatim>\<open>reason_phrase\<close>, what \<^verbatim>\<open>response.json()\<close> gives (\<open>None\<close> when the body
  is not JSON and the call raises), and the body as \<^verbatim>\<open>aiter_text\<close> and
  \<^verbatim>\<open>aiter_lines\<close> deliver it.
\<close>

record response =
  status_code :: int
  reason_phrase :: string
  json_body :: "json option"
  text_chunks :: "string list"
  body_lines :: "string list"

text \<open>
  The exceptions of the program and of its libraries. A message built by an f-string is
  kept as the list of its pieces, so that no number formatting is invented.
\<close>

datatype pyexn =
    JSONDecodeError
  | KeyError json
  | TypeError
  | IndexError
  | AttributeError
  | ValidationError
  | UnicodeDecodeError
  | TimeoutException
  | RequestError string
  | OtherError string
  | DocumentProcessingError "piece list"
  | LangflowError "piece list" "response option"
  | LangflowRequestError "piece list" pyexn
  | HTTPException int "piece list"
and piece =
    Lit string
  | IntP int
  | NumP real
  | ExnP pyexn

text \<open>
  \<^verbatim>\<open>json.loads\<close> on a \<^verbatim>\<open>str\<close> is a parameter of the model: it returns a value or
  raises. Its documentation promises \<^verbatim>\<open>JSONDecodeError\<close> for text that is not JSON.
\<close>

type_synonym decoder = "string \<Rightarrow> pyexn + json"

section \<open>The flow client (services/langflow\_client.py)\<close>

record http_request =
  req_method :: string
  req_url :: string
  req_json :: "json option"
  req_headers :: "string dict"

type_synonym transport = "http_request \<Rightarrow> pyexn + response"

record LangflowClientOptions =
  opt_base_url :: "string option"
  opt_api_key :: "string option"
  opt_timeout :: "real option"
  opt_default_headers :: "string dict option"
  opt_http_client :: "transport option"

record RequestOptions =
  path :: string
  http_method :: string
  body :: "json option"
  headers :: "string dict option"
  timeout :: "real option"

record LangflowClient =
  base_url :: string
  base_path :: string
  api_key :: string
  client_timeout :: real
  default_headers :: "string dict"
  http_client :: "transport option"

text \<open>The settings the client reads (core/config.py).\<close>

record Settings =
  LANGFLOW_API_URL :: string
  LANGFLOW_API_KEY :: string
  LANGFLOW_TIMEOUT :: real

text \<open>Python's \<^verbatim>\<open>a or b\<close> on an optional string and on an optional number.\<close>

definition str_or :: "string option \<Rightarrow> string \<Rightarrow> string" where
  "str_or a b = (case a of None \<Rightarrow> b | Some s \<Rightarrow> if s = [] then b else s)"

definition num_or :: "real option \<Rightarrow> real \<Rightarrow> real" where
  "num_or a b = (case a of None \<Rightarrow> b | Some t \<Rightarrow> if t = 0 then b else t)"

definition dict_or_empty :: "'v dict option \<Rightarrow> 'v dict" where
  "dict_or_empty a = (case a of None \<Rightarrow> [] | Some d \<Rightarrow> d)"

text \<open>
  \<^verbatim>\<open>LangflowClient.__init__\<close>; \<open>user_agent\<close> is the string \<^verbatim>\<open>_get_user_agent\<close>
  builds from the platform.
\<close>

definition LangflowClient_init ::
  "Settings \<Rightarrow> string \<Rightarrow> LangflowClientOptions \<Rightarrow> LangflowClient" where
  "LangflowClient_init settings user_agent opts =
     (let dh = dict_or_empty (opt_default_headers opts)
      in \<lparr> base_url = LANGFLOW_API_URL settings,
           base_path = ''/api/v1'',
           api_key = str_or (opt_api_key opts) (LANGFLOW_API_KEY settings),
           client_timeout =
             num_or (opt_timeout opts)
               (if LANGFLOW_TIMEOUT settings = 0 then 60 else LANGFLOW_TIMEOUT settings),
           default_headers =
             (if ''User-Agent'' \<notin> fst ` set dh
              then dict_set dh ''User-Agent'' user_agent else dh),
           http_client = opt_http_client opts \<rparr>)"

definition set_api_key :: "string \<Rightarrow> string dict \<Rightarrow> string dict" where
  "set_api_key key hs = dict_set hs ''x-api-key'' key"

definition set_headers :: "LangflowClient \<Rightarrow> string dict \<Rightarrow> string dict" where
  "set_headers c hs =
     (let combined = default_headers c;
          combined = (if hs \<noteq> []
                      then fold (\<lambda>(key, val) d. dict_set d key val) hs combined
                      else combined);
          combined = (if api_key c \<noteq> [] then set_api_key (api_key c) combined
                      else combined)
      in combined)"

text \<open>\<^verbatim>\<open>str.upper\<close> on the ASCII letters, all a method name has.\<close>

definition upper_char :: "char \<Rightarrow> char" where
  "upper_char ch =
     (let n = (of_char ch :: nat)
      in if 97 \<le> n \<and> n \<le> 122 then char_of (n - 32) else ch)"

definition upper :: "string \<Rightarrow> string" where
  "upper s = map upper_char s"

text \<open>httpx: \<^verbatim>\<open>is_success\<close> is \<^verbatim>\<open>200 <= status_code <= 299\<close>.\<close>

definition is_success :: "response \<Rightarrow> bool" where
  "is_success r \<longleftrightarrow> 200 \<le> status_code r \<and> status_code r \<le> 299"

text \<open>
  \<^verbatim>\<open>timeout = options.timeout or self.timeout\<close>, the URL, and the client the
  \<^verbatim>\<open>async with\<close> opens: \<open>AsyncClient\<close> is \<^verbatim>\<open>httpx.AsyncClient(timeout=...)\<close>, the
  transport that a timeout value gives; an injected \<^verbatim>\<open>http_client\<close> is used as it is.
\<close>

definition effective_timeout :: "LangflowClient \<Rightarrow> RequestOptions \<Rightarrow> real" where
  "effective_timeout c options = num_or (timeout options) (client_timeout c)"

definition request_url :: "LangflowClient \<Rightarrow> RequestOptions \<Rightarrow> string" where
  "request_url c options = base_url c @ base_path c @ path options"

definition open_client ::
  "(real \<Rightarrow> transport) \<Rightarrow> LangflowClient \<Rightarrow> RequestOptions \<Rightarrow> transport" where
  "open_client AsyncClient c options =
     (case http_client c of
        Some cl \<Rightarrow> cl
      | None \<Rightarrow> AsyncClient (effective_timeout c options))"

text \<open>What \<^verbatim>\<open>request\<close> sends: a GET goes without a body.\<close>

definition request_sent :: "LangflowClient \<Rightarrow> RequestOptions \<Rightarrow> http_request" where
  "request_sent c options =
     (let hs = set_headers c (dict_or_empty (headers options))
      in if upper (http_method options) = ''GET''
         then \<lparr> req_method = ''GET'', req_url = request_url c options, req_json = None,
                req_headers = hs \<rparr>
         else \<lparr> req_method = http_method options, req_url = request_url c options,
                req_json = body options, req_headers = hs \<rparr>)"

text \<open>
  \<^verbatim>\<open>LangflowClient.request\<close>: the body of the \<^verbatim>\<open>try\<close>, then the \<^verbatim>\<open>except\<close>
  clauses in the order of the source. \<^verbatim>\<open>LangflowRequestError\<close> is a subclass of
  \<^verbatim>\<open>LangflowError\<close>, so \<^verbatim>\<open>except LangflowError: raise\<close> lets both through.
\<close>

definition request ::
  "(real \<Rightarrow> transport) \<Rightarrow> LangflowClient \<Rightarrow> RequestOptions \<Rightarrow> pyexn + json" where
  "request AsyncClient c options =
     (let tmo = effective_timeout c options;
          outcome =
            (case open_client AsyncClient c options (request_sent c options) of
               Inl e \<Rightarrow> Inl e
             | Inr r \<Rightarrow>
                 if \<not> is_success r
                 then Inl (LangflowError
                             [IntP (status_code r), Lit '' - '', Lit (reason_phrase r)]
                             (Some r))
                 else (case json_body r of
                         None \<Rightarrow> Inl JSONDecodeError
                       | Some v \<Rightarrow> Inr v))
      in case outcome of
           Inr v \<Rightarrow> Inr v
         | Inl TimeoutException \<Rightarrow>
             Inl (LangflowRequestError
                    [Lit ''Request timed out after '', NumP tmo, Lit ''s'']
                    TimeoutException)
         | Inl (RequestError m) \<Rightarrow>
             Inl (LangflowRequestError
                    [Lit ''Request failed: '', ExnP (RequestError m)] (RequestError m))
         | Inl (LangflowError m r) \<Rightarrow> Inl (LangflowError m r)
         | Inl (LangflowRequestError m e) \<Rightarrow> Inl (LangflowRequestError m e)
         | Inl e \<Rightarrow>
             Inl (LangflowRequestError [Lit ''Unexpected error: '', ExnP e] e))"

text \<open>
  \<^verbatim>\<open>isinstance(e, LangflowRequestError)\<close>, and the plain \<^verbatim>\<open>LangflowError\<close> that is
  not the subclass.
\<close>

fun is_request_error :: "pyexn \<Rightarrow> bool" where
  "is_request_error (LangflowRequestError m e) = True"
| "is_request_error e = False"

fun is_flow_error :: "pyexn \<Rightarrow> bool" where
  "is_flow_error (LangflowError m r) = True"
| "is_flow_error e = False"

text \<open>
  \<^verbatim>\<open>LangflowClient.stream\<close>. \<^verbatim>\<open>httpx.AsyncClient.stream\<close> is an asynchronous context
  manager and no coroutine: the call \<^verbatim>\<open>client.stream(...)\<close> builds the manager from
  its arguments (\<open>stream_sent\<close>) and sends nothing, and \<^verbatim>\<open>await\<close> applied to the
  manager raises \<^verbatim>\<open>TypeError\<close> (\<open>await_stream\<close>), which the last \<^verbatim>\<open>except\<close> clause
  wraps. The lines after the \<^verbatim>\<open>await\<close> are written down as the source has them. The
  generator is given by what reading it to the end yields: blank lines are skipped,
  and so are lines that do not decode.
\<close>

definition stream_url :: "LangflowClient \<Rightarrow> RequestOptions \<Rightarrow> string" where
  "stream_url c options =
     (let url = request_url c options
      in if CHR ''?'' \<in> set url then url @ ''&stream=true'' else url @ ''?stream=true'')"

definition stream_sent :: "LangflowClient \<Rightarrow> RequestOptions \<Rightarrow> http_request" where
  "stream_sent c options =
     \<lparr> req_method = http_method options, req_url = stream_url c options,
       req_json = body options,
       req_headers = set_headers c (dict_or_empty (headers options)) \<rparr>"

fun stream_response :: "decoder \<Rightarrow> string list \<Rightarrow> pyexn + json list" where
  "stream_response loads [] = Inr []"
| "stream_response loads (line # rest) =
     (if strip line \<noteq> []
      then (case loads line of
              Inr v \<Rightarrow>
                (case stream_response loads rest of
                   Inr vs \<Rightarrow> Inr (v # vs)
                 | Inl e \<Rightarrow> Inl e)
            | Inl JSONDecodeError \<Rightarrow> stream_response loads rest
            | Inl e \<Rightarrow> Inl e)
      else stream_response loads rest)"

definition await_stream :: "transport \<Rightarrow> http_request \<Rightarrow> pyexn + response" where
  "await_stream client req = Inl TypeError"

definition stream ::
  "decoder \<Rightarrow> (real \<Rightarrow> transport) \<Rightarrow> LangflowClient \<Rightarrow> RequestOptions
     \<Rightarrow> pyexn + (pyexn + json list)" where
  "stream loads AsyncClient c options =
     (let tmo = effective_timeout c options;
          outcome =
            (case await_stream (open_client AsyncClient c options) (stream_sent c options) of
               Inl e \<Rightarrow> Inl e
             | Inr r \<Rightarrow>
                 if \<not> is_success r
                 then Inl (LangflowError
                             [IntP (status_code r), Lit '' - '', Lit (reason_phrase r),
                              Lit '': '', Lit (concat (text_chunks r))]
                             (Some r))
                 else Inr (stream_response loads (body_lines r)))
      in case outcome of
           Inr g \<Rightarrow> Inr g
         | Inl TimeoutException \<Rightarrow>
             Inl (LangflowRequestError
                    [Lit ''Stream request timed out after '', NumP tmo, Lit ''s'']
                    TimeoutException)
         | Inl (RequestError m) \<Rightarrow>
             Inl (LangflowRequestError
                    [Lit ''Stream request failed: '', ExnP (RequestError m)]
                    (RequestError m))
         | Inl (LangflowError m r) \<Rightarrow> Inl (LangflowError m r)
         | Inl (LangflowRequestError m e) \<Rightarrow> Inl (LangflowRequestError m e)
         | Inl e \<Rightarrow>
             Inl (LangflowRequestError [Lit ''Unexpected stream error: '', ExnP e] e))"

text \<open>\<^verbatim>\<open>Flow\<close> and \<^verbatim>\<open>Flow.run\<close>: the payload is the tweaks, updated with the inputs.\<close>

record Flow =
  flow_id :: string
  tweaks :: "json dict"

definition flow :: "string \<Rightarrow> json dict option \<Rightarrow> Flow" where
  "flow fid tw = \<lparr> flow_id = fid, tweaks = dict_or_empty tw \<rparr>"

definition run_options :: "Flow \<Rightarrow> json dict option \<Rightarrow> RequestOptions" where
  "run_options f inputs =
     (let payload = [(''tweaks'', JObj (tweaks f))];
          payload = (if dict_or_empty inputs \<noteq> []
                     then fold (\<lambda>(key, val) d. dict_set d key val)
                            (dict_or_empty inputs) payload
                     else payload)
      in \<lparr> path = ''/run/'' @ flow_id f, http_method = ''POST'',
           body = Some (JObj payload),
           headers = Some [(''Content-Type'', ''application/json'')],
           timeout = None \<rparr>)"

datatype run_result = Result json | Events "pyexn + json list"

definition run ::
  "decoder \<Rightarrow> (real \<Rightarrow> transport) \<Rightarrow> LangflowClient \<Rightarrow> Flow \<Rightarrow> json dict option
     \<Rightarrow> bool \<Rightarrow> pyexn + run_result" where
  "run loads AsyncClient c f inputs streaming =
     (if streaming
      then map_sum id Events (stream loads AsyncClient c (run_options f inputs))
      else map_sum id Result (request AsyncClient c (run_options f inputs)))"

text \<open>
  The reading of the specification, to compare with \<open>effective_timeout\<close>: the override
  whenever one is supplied.
\<close>

definition spec_effective_timeout :: "LangflowClient \<Rightarrow> RequestOptions \<Rightarrow> real" where
  "spec_effective_timeout c options =
     (case timeout options of Some t \<Rightarrow> t | None \<Rightarrow> client_timeout c)"

text \<open>Sample data: a client as the singleton is built, and a transport for each outcome.\<close>

definition demo_client :: LangflowClient where
  "demo_client =
     \<lparr> base_url = ''localhost:7860'', base_path = ''/api/v1'', api_key = ''k3y'',
       client_timeout = 30, default_headers = [(''A'', ''1'')], http_client = None \<rparr>"

definition demo_options :: RequestOptions where
  "demo_options =
     \<lparr> path = ''/run/f1'', http_method = ''POST'', body = Some (JObj [(''tweaks'', JObj [])]),
       headers = Some [(''Content-Type'', ''application/json'')], timeout = None \<rparr>"

definition demo_flow :: Flow where
  "demo_flow = \<lparr> flow_id = ''f1'', tweaks = [] \<rparr>"

definition merge_options :: RequestOptions where
  "merge_options = demo_options \<lparr> headers := Some [(''A'', ''2''), (''B'', ''3'')] \<rparr>"

definition zero_override_options :: RequestOptions where
  "zero_override_options = demo_options \<lparr> timeout := Some 0 \<rparr>"

definition override_options :: RequestOptions where
  "override_options = demo_options \<lparr> timeout := Some 5 \<rparr>"

definition response_500 :: response where
  "response_500 =
     \<lparr> status_code = 500, reason_phrase = ''Internal Server Error'', json_body = None,
       text_chunks = [], body_lines = [] \<rparr>"

definition failing_server :: "real \<Rightarrow> transport" where
  "failing_server tmo req = Inr response_500"

definition slow_server :: "real \<Rightarrow> transport" where
  "slow_server tmo req = Inl TimeoutException"

section \<open>The skill response parser (utils/langflow\_utils.py)\<close>

text \<open>
  \<^verbatim>\<open>re.search(r'```json\s*(.*?)\s*```', text, re.DOTALL)\<close> and its group 1, by
  backtracking as \<^verbatim>\<open>re\<close> does it. \<open>closes\<close> is \<^verbatim>\<open>\s*```\<close> at the front of the
  remaining text; \<open>lazy_group\<close> is \<^verbatim>\<open>(.*?)\<close>, which takes one more character only
  when the rest of the pattern fails; \<open>after_tag\<close> is the greedy \<^verbatim>\<open>\s*\<close> after the
  tag, which gives whitespace back when the rest fails; \<open>fence_search\<close> tries the start
  positions from left to right.
\<close>

definition closes :: "string \<Rightarrow> bool" where
  "closes r \<longleftrightarrow> prefix ''```'' (dropWhile is_space r)"

fun lazy_group :: "string \<Rightarrow> string \<Rightarrow> string option" where
  "lazy_group acc [] = (if closes [] then Some (rev acc) else None)"
| "lazy_group acc (ch # r) =
     (if closes (ch # r) then Some (rev acc) else lazy_group (ch # acc) r)"

fun after_tag :: "string \<Rightarrow> string option" where
  "after_tag [] = lazy_group [] []"
| "after_tag (ch # r) =
     (if is_space ch
      then (case after_tag r of
              Some g \<Rightarrow> Some g
            | None \<Rightarrow> lazy_group [] (ch # r))
      else lazy_group [] (ch # r))"

fun fence_search :: "string \<Rightarrow> string option" where
  "fence_search [] = None"
| "fence_search (ch # r) =
     (if prefix ''```json'' (ch # r)
      then (case after_tag (drop 7 (ch # r)) of
              Some g \<Rightarrow> Some g
            | None \<Rightarrow> fence_search r)
      else fence_search r)"

text \<open>\<^verbatim>\<open>isinstance(data, dict) and "skills" in data\<close>, and then \<^verbatim>\<open>data["skills"]\<close>.\<close>

fun skills_field :: "json \<Rightarrow> json option" where
  "skills_field (JObj d) = map_of d ''skills''"
| "skills_field v = None"

definition skills_or_empty :: "json \<Rightarrow> json" where
  "skills_or_empty data = (case skills_field data of Some v \<Rightarrow> v | None \<Rightarrow> JArr [])"

text \<open>
  \<^verbatim>\<open>parse_skills_response\<close>, with the library calls it makes in their order. Only
  \<^verbatim>\<open>json.JSONDecodeError\<close> is caught; any other exception of the decoder leaves the
  function.
\<close>

datatype lib_call = Loads string | Search string

definition parse_skills_run :: "decoder \<Rightarrow> string \<Rightarrow> lib_call list \<times> (pyexn + json)" where
  "parse_skills_run loads skills_text =
     (case loads skills_text of
        Inr data \<Rightarrow> ([Loads skills_text], Inr (skills_or_empty data))
      | Inl JSONDecodeError \<Rightarrow>
          (case fence_search skills_text of
             None \<Rightarrow> ([Loads skills_text, Search skills_text], Inr (JArr []))
           | Some g \<Rightarrow>
               (case loads g of
                  Inr data \<Rightarrow>
                    ([Loads skills_text, Search skills_text, Loads g],
                     Inr (skills_or_empty data))
                | Inl JSONDecodeError \<Rightarrow>
                    ([Loads skills_text, Search skills_text, Loads g], Inr (JArr []))
                | Inl e \<Rightarrow> ([Loads skills_text, Search skills_text, Loads g], Inl e)))
      | Inl e \<Rightarrow> ([Loads skills_text], Inl e))"

definition parse_skills_response :: "decoder \<Rightarrow> string \<Rightarrow> pyexn + json" where
  "parse_skills_response loads skills_text = snd (parse_skills_run loads skills_text)"

section \<open>Document processing (utils/document\_utils.py)\<close>

type_synonym bytes = "char list"

record UploadFile =
  content_type :: "string option"
  filename :: "string option"
  content :: bytes

text \<open>
  The libraries the extraction calls: \<^verbatim>\<open>PyPDF2.PdfReader\<close> (it raises, or gives the
  pages, each with what its \<^verbatim>\<open>extract_text()\<close> returns or raises) and
  \<^verbatim>\<open>bytes.decode('utf-8')\<close>.
\<close>

record doc_lib =
  PdfReader :: "bytes \<Rightarrow> pyexn + (pyexn + string) list"
  decode_utf8 :: "bytes \<Rightarrow> pyexn + string"

definition ALLOWED_DOCUMENT_TYPES :: "string list" where
  "ALLOWED_DOCUMENT_TYPES =
     [''application/pdf'', ''application/msword'',
      ''application/vnd.openxmlformats-officedocument.wordprocessingml.document'',
      ''text/plain'']"

definition validate_document_type :: "UploadFile \<Rightarrow> pyexn + unit" where
  "validate_document_type document =
     (if (case content_type document of
            None \<Rightarrow> True
          | Some ct \<Rightarrow> ct \<notin> set ALLOWED_DOCUMENT_TYPES)
      then Inl (HTTPException 400
                  [Lit ''File must be a PDF, Word document or a text file''])
      else Inr ())"

text \<open>
  The page loop of \<^verbatim>\<open>extract_text_from_pdf\<close>: \<open>page_num\<close> counts from 0, \<open>text\<close>
  is the text so far, and \<open>ys\<close> lists the page numbers after which the loop has
  awaited \<^verbatim>\<open>asyncio.sleep(0)\<close>.
\<close>

fun pdf_loop ::
  "nat \<Rightarrow> (pyexn + string) list \<Rightarrow> string \<Rightarrow> nat list \<Rightarrow> nat list \<times> (pyexn + string)" where
  "pdf_loop page_num [] text ys = (ys, Inr text)"
| "pdf_loop page_num (page # pages) text ys =
     (case page of
        Inl e \<Rightarrow> (ys, Inl e)
      | Inr t \<Rightarrow>
          pdf_loop (Suc page_num) pages (text @ t @ [CHR 0x0A])
            (if page_num mod 5 = 0 then ys @ [page_num] else ys))"

definition extract_text_from_pdf ::
  "doc_lib \<Rightarrow> UploadFile \<Rightarrow> nat list \<times> (pyexn + string)" where
  "extract_text_from_pdf lib pdf_file =
     (case PdfReader lib (content pdf_file) of
        Inl e \<Rightarrow>
          ([], Inl (DocumentProcessingError
                      [Lit ''Error extracting text from PDF: '', ExnP e]))
      | Inr pages \<Rightarrow>
          (case pdf_loop 0 pages [] [] of
             (ys, Inl e) \<Rightarrow>
               (ys, Inl (DocumentProcessingError
                           [Lit ''Error extracting text from PDF: '', ExnP e]))
           | (ys, Inr text) \<Rightarrow> (ys, Inr text)))"

text \<open>\<^verbatim>\<open>str.lower\<close> on the ASCII letters, \<^verbatim>\<open>sub in s\<close>, and \<^verbatim>\<open>str(n)\<close> of a length.\<close>

definition lower_char :: "char \<Rightarrow> char" where
  "lower_char ch =
     (let n = (of_char ch :: nat)
      in if 65 \<le> n \<and> n \<le> 90 then char_of (n + 32) else ch)"

definition lower :: "string \<Rightarrow> string" where
  "lower s = map lower_char s"

fun contains :: "string \<Rightarrow> string \<Rightarrow> bool" where
  "contains sub [] = (sub = [])"
| "contains sub (ch # r) = (prefix sub (ch # r) \<or> contains sub r)"

fun str_nat :: "nat \<Rightarrow> string" where
  "str_nat n =
     (if n < 10 then [char_of (48 + n)]
      else str_nat (n div 10) @ [char_of (48 + n mod 10)])"

definition extract_text_from_document ::
  "doc_lib \<Rightarrow> UploadFile \<Rightarrow> nat list \<times> (pyexn + string)" where
  "extract_text_from_document lib document =
     (case content_type document of
        None \<Rightarrow>
          ([], Inl (DocumentProcessingError
                      [Lit ''Error extracting text from document: '', ExnP AttributeError]))
      | Some ct0 \<Rightarrow>
          (let ct = lower ct0
           in if contains ''pdf'' ct then
                (case extract_text_from_pdf lib document of
                   (ys, Inl e) \<Rightarrow>
                     (ys, Inl (DocumentProcessingError
                                 [Lit ''Error extracting text from document: '', ExnP e]))
                 | (ys, Inr text) \<Rightarrow> (ys, Inr text))
              else if contains ''docx'' ct \<or> contains ''doc'' ct \<or> contains ''word'' ct then
                ([], Inr (''Document content (binary): ''
                          @ str_nat (length (content document)) @ '' bytes''))
              else if contains ''text/plain'' ct then
                (case decode_utf8 lib (content document) of
                   Inl e \<Rightarrow>
                     ([], Inl (DocumentProcessingError
                                 [Lit ''Error extracting text from document: '', ExnP e]))
                 | Inr text \<Rightarrow> ([], Inr text))
              else
                ([], Inr (''Unknown document type: '' @ ct @ '', size: ''
                          @ str_nat (length (content document)) @ '' bytes''))))"

text \<open>
  \<^verbatim>\<open>process_document\<close>: the body of the \<^verbatim>\<open>try\<close>, then its three \<^verbatim>\<open>except\<close>
  clauses. An \<^verbatim>\<open>HTTPException\<close> is raised again as it is.
\<close>

definition process_document :: "doc_lib \<Rightarrow> UploadFile \<Rightarrow> pyexn + string \<times> real" where
  "process_document lib document =
     (let outcome =
            (case validate_document_type document of
               Inl e \<Rightarrow> Inl e
             | Inr u \<Rightarrow>
                 (case snd (extract_text_from_document lib document) of
                    Inl e \<Rightarrow> Inl e
                  | Inr extracted_text \<Rightarrow>
                      if extracted_text = [] \<or> length (strip extracted_text) = 0
                      then Inl (HTTPException 400
                                  [Lit ''Could not extract text from document''])
                      else Inr (extracted_text, real (length extracted_text) / 1024)))
      in case outcome of
           Inr r \<Rightarrow> Inr r
         | Inl (DocumentProcessingError m) \<Rightarrow>
             Inl (HTTPException 400 [ExnP (DocumentProcessingError m)])
         | Inl (HTTPException s d) \<Rightarrow> Inl (HTTPException s d)
         | Inl e \<Rightarrow>
             Inl (HTTPException 500 [Lit ''Error processing document: '', ExnP e]))"

text \<open>
  The status the web framework answers with when an exception leaves a route: the
  status of an \<^verbatim>\<open>HTTPException\<close>, 500 for anything else.
\<close>

fun http_status :: "pyexn \<Rightarrow> int" where
  "http_status (HTTPException s d) = s"
| "http_status e = 500"

definition is_client_error :: "int \<Rightarrow> bool" where
  "is_client_error s \<longleftrightarrow> 400 \<le> s \<and> s \<le> 499"

text \<open>
  The readings of the specification for the PDF text and the yield points, to compare
  with \<open>pdf_loop\<close>: the page texts joined by newlines, and a yield after every fifth
  page, pages counted from one.
\<close>

fun spec_joined_text :: "string list \<Rightarrow> string" where
  "spec_joined_text [] = []"
| "spec_joined_text [t] = t"
| "spec_joined_text (t # ts) = t @ [CHR 0x0A] @ spec_joined_text ts"

definition spec_yield_points :: "nat \<Rightarrow> nat list" where
  "spec_yield_points n = filter (\<lambda>i. Suc i mod 5 = 0) [0..<n]"

section \<open>Skill persistence (repositories/job\_offer\_skill.py)\<close>

record JobOfferSkill =
  job_offer_id :: int
  skill :: string
  expertise_level :: string
  priority :: string

text \<open>Python's \<^verbatim>\<open>x[key]\<close>, \<^verbatim>\<open>x[0]\<close> and \<^verbatim>\<open>for item in x\<close> on a decoded value.\<close>

fun getitem :: "json \<Rightarrow> string \<Rightarrow> pyexn + json" where
  "getitem (JObj d) k = (case map_of d k of Some v \<Rightarrow> Inr v | None \<Rightarrow> Inl (KeyError (JStr k)))"
| "getitem v k = Inl TypeError"

fun getitem0 :: "json \<Rightarrow> pyexn + json" where
  "getitem0 (JArr []) = Inl IndexError"
| "getitem0 (JArr (v # vs)) = Inr v"
| "getitem0 (JObj d) = Inl (KeyError (JInt 0))"
| "getitem0 (JStr []) = Inl IndexError"
| "getitem0 (JStr (ch # r)) = Inr (JStr [ch])"
| "getitem0 v = Inl TypeError"

fun py_iter :: "json \<Rightarrow> pyexn + json list" where
  "py_iter (JArr vs) = Inr vs"
| "py_iter (JObj d) = Inr (map (\<lambda>(k, v). JStr k) d)"
| "py_iter (JStr s) = Inr (map (\<lambda>ch. JStr [ch]) s)"
| "py_iter v = Inl TypeError"

text \<open>
  The first loop of \<^verbatim>\<open>bulk_create\<close>: the three subscripts are evaluated in the order
  of the keyword arguments; \<open>to_str\<close> is Python's \<^verbatim>\<open>str()\<close>. The result is the records
  added to the session so far and the exception that stopped the loop, if any.
\<close>

fun build_skills ::
  "(json \<Rightarrow> string) \<Rightarrow> int \<Rightarrow> json list \<Rightarrow> JobOfferSkill list
     \<Rightarrow> JobOfferSkill list \<times> pyexn option" where
  "build_skills to_str jid [] db_skills = (db_skills, None)"
| "build_skills to_str jid (skill_data # rest) db_skills =
     (case getitem skill_data ''skill'' of
        Inl e \<Rightarrow> (db_skills, Some e)
      | Inr a \<Rightarrow>
          (case getitem skill_data ''expertise_level'' of
             Inl e \<Rightarrow> (db_skills, Some e)
           | Inr b \<Rightarrow>
               (case getitem skill_data ''priority'' of
                  Inl e \<Rightarrow> (db_skills, Some e)
                | Inr c \<Rightarrow>
                    build_skills to_str jid rest
                      (db_skills @
                         [\<lparr> job_offer_id = jid, skill = to_str a,
                            expertise_level = to_str b, priority = to_str c \<rparr>]))))"

section \<open>Job offer creation (api/routers/job\_offers.py)\<close>

record JobOfferCreate =
  title :: string
  summary :: "string option"
  storage_url :: "string option"

record JobOffer =
  jo_id :: int
  jo_title :: string

text \<open>
  What the route does to its collaborators, in order. A \<open>RepoCreate\<close> keeps what the
  repository answered: the record is created when the answer is \<open>Inr\<close>.
\<close>

datatype action =
    Upload string
  | RunFlow string
  | RepoCreate JobOfferCreate "pyexn + JobOffer"
  | DbAdd JobOfferSkill
  | DbCommit
  | RepoRemove int

text \<open>
  The collaborators of the route: the document libraries, the object storage, the HTTP
  transport and the flow client, the JSON decoder, the repositories (their base class is
  not among the sources), the database session and Python's \<^verbatim>\<open>str()\<close>.
\<close>

record world =
  doc :: doc_lib
  upload_file :: "UploadFile \<Rightarrow> string \<Rightarrow> pyexn + string"
  job_offers_bucket_name :: string
  AsyncClient :: "real \<Rightarrow> transport"
  langflow_client :: LangflowClient
  SUMMARY_FLOW_ID :: string
  SKILLS_FLOW_ID :: string
  loads :: decoder
  repo_create :: "JobOfferCreate \<Rightarrow> pyexn + JobOffer"
  repo_remove :: "int \<Rightarrow> pyexn + unit"
  db_commit :: "JobOfferSkill list \<Rightarrow> pyexn + JobOfferSkill list"
  to_str :: "json \<Rightarrow> string"

text \<open>
  \<^verbatim>\<open>JobOfferSkillRepository.bulk_create\<close>: the loop, then \<^verbatim>\<open>db.commit()\<close> and the
  refreshes.
\<close>

definition bulk_create :: "world \<Rightarrow> int \<Rightarrow> json \<Rightarrow> action list \<times> (pyexn + JobOfferSkill list)" where
  "bulk_create w jid skills =
     (case py_iter skills of
        Inl e \<Rightarrow> ([], Inl e)
      | Inr items \<Rightarrow>
          (case build_skills (to_str w) jid items [] of
             (db_skills, Some e) \<Rightarrow> (map DbAdd db_skills, Inl e)
           | (db_skills, None) \<Rightarrow>
               (case db_commit w db_skills of
                  Inl e \<Rightarrow> (map DbAdd db_skills @ [DbCommit], Inl e)
                | Inr refreshed \<Rightarrow> (map DbAdd db_skills @ [DbCommit], Inr refreshed))))"

text \<open>
  \<^verbatim>\<open>result["outputs"][0]["outputs"][0]["results"]["text"]["data"]["text"]\<close> on what
  \<^verbatim>\<open>Flow.run\<close> returned.
\<close>

definition envelope_text :: "run_result \<Rightarrow> pyexn + json" where
  "envelope_text res =
     (case res of
        Events g \<Rightarrow> Inl TypeError
      | Result v \<Rightarrow>
          (case getitem v ''outputs'' of Inl e \<Rightarrow> Inl e | Inr a \<Rightarrow>
          (case getitem0 a of Inl e \<Rightarrow> Inl e | Inr b \<Rightarrow>
          (case getitem b ''outputs'' of Inl e \<Rightarrow> Inl e | Inr c \<Rightarrow>
          (case getitem0 c of Inl e \<Rightarrow> Inl e | Inr d \<Rightarrow>
          (case getitem d ''results'' of Inl e \<Rightarrow> Inl e | Inr f \<Rightarrow>
          (case getitem f ''text'' of Inl e \<Rightarrow> Inl e | Inr g \<Rightarrow>
          (case getitem g ''data'' of Inl e \<Rightarrow> Inl e | Inr h \<Rightarrow>
           getitem h ''text''))))))))"

text \<open>
  \<^verbatim>\<open>JobOfferCreate(**job_offer_data)\<close>: the schema takes a string or \<^verbatim>\<open>None\<close> as
  summary and refuses anything else.
\<close>

definition JobOfferCreate_init :: "string \<Rightarrow> json \<Rightarrow> string \<Rightarrow> pyexn + JobOfferCreate" where
  "JobOfferCreate_init ttl summary_text object_name =
     (case summary_text of
        JStr s \<Rightarrow> Inr \<lparr> title = ttl, summary = Some s, storage_url = Some object_name \<rparr>
      | JNull \<Rightarrow> Inr \<lparr> title = ttl, summary = None, storage_url = Some object_name \<rparr>
      | v \<Rightarrow> Inl ValidationError)"

text \<open>\<^verbatim>\<open>parse_skills_response(skills_text)\<close>: \<^verbatim>\<open>json.loads\<close> refuses what is no text.\<close>

definition parse_skills_of :: "decoder \<Rightarrow> json \<Rightarrow> pyexn + json" where
  "parse_skills_of ld skills_text =
     (case skills_text of
        JStr s \<Rightarrow> parse_skills_response ld s
      | v \<Rightarrow> Inl TypeError)"

definition summary_tweaks :: "string \<Rightarrow> json dict" where
  "summary_tweaks extracted_text =
     [(''Agent-gE9mt'', JObj []), (''TextOutput-riQeq'', JObj []),
      (''TextInput-cTRS8'', JObj [(''input_value'', JStr extracted_text)]),
      (''Prompt-kPUCU'', JObj [])]"

definition skills_tweaks :: "string \<Rightarrow> json dict" where
  "skills_tweaks extracted_text =
     [(''Agent-tFpjL'', JObj []), (''TextOutput-9JOx7'', JObj []),
      (''TextInput-ZLrFC'', JObj [(''input_value'', JStr extracted_text)]),
      (''Prompt-NCiV2'', JObj [])]"

definition text_inputs :: "json dict option" where
  "text_inputs = Some [(''output_type'', JStr ''text''), (''input_type'', JStr ''text'')]"

text \<open>
  The \<^verbatim>\<open>except Exception\<close> clause of \<^verbatim>\<open>create_job_offer\<close>: \<open>job_offer\<close> is the
  local variable when it is bound, \<open>tr\<close> what has been done so far. An exception of
  \<^verbatim>\<open>remove\<close> leaves the route in place of the HTTP 500.
\<close>

definition on_exception ::
  "world \<Rightarrow> JobOffer option \<Rightarrow> action list \<Rightarrow> pyexn \<Rightarrow> action list \<times> (pyexn + json)" where
  "on_exception w job_offer tr e =
     (case job_offer of
        None \<Rightarrow>
          (tr, Inl (HTTPException 500 [Lit ''Error creating job offer: '', ExnP e]))
      | Some jo \<Rightarrow>
          (case repo_remove w (jo_id jo) of
             Inl e' \<Rightarrow> (tr @ [RepoRemove (jo_id jo)], Inl e')
           | Inr u \<Rightarrow>
               (tr @ [RepoRemove (jo_id jo)],
                Inl (HTTPException 500 [Lit ''Error creating job offer: '', ExnP e]))))"

text \<open>
  The \<^verbatim>\<open>try\<close> block of \<^verbatim>\<open>create_job_offer\<close> up to \<^verbatim>\<open>JobOfferCreate(...)\<close>: the
  actions done, and the exception raised or the schema object with the two texts.
\<close>

definition before_create ::
  "world \<Rightarrow> string \<Rightarrow> UploadFile
     \<Rightarrow> action list \<times> (pyexn + JobOfferCreate \<times> json \<times> json)" where
  "before_create w ttl document =
     (case process_document (doc w) document of
        Inl e \<Rightarrow> ([], Inl e)
      | Inr (extracted_text, text_size_kb) \<Rightarrow>
     (case upload_file w document (job_offers_bucket_name w) of
        Inl e \<Rightarrow> ([Upload (job_offers_bucket_name w)], Inl e)
      | Inr object_name \<Rightarrow>
     (let summary_flow = flow (SUMMARY_FLOW_ID w) (Some (summary_tweaks extracted_text));
          skills_extraction_flow =
            flow (SKILLS_FLOW_ID w) (Some (skills_tweaks extracted_text));
          tr1 = [Upload (job_offers_bucket_name w), RunFlow (SUMMARY_FLOW_ID w)];
          tr2 = tr1 @ [RunFlow (SKILLS_FLOW_ID w)]
      in
     (case run (loads w) (AsyncClient w) (langflow_client w) summary_flow text_inputs False of
        Inl e \<Rightarrow> (tr1, Inl e)
      | Inr summary_result \<Rightarrow>
     (case run (loads w) (AsyncClient w) (langflow_client w) skills_extraction_flow
             text_inputs False of
        Inl e \<Rightarrow> (tr2, Inl e)
      | Inr skills_result \<Rightarrow>
     (case envelope_text summary_result of
        Inl e \<Rightarrow> (tr2, Inl e)
      | Inr summary_text \<Rightarrow>
     (case envelope_text skills_result of
        Inl e \<Rightarrow> (tr2, Inl e)
      | Inr skills_text \<Rightarrow>
     (case JobOfferCreate_init ttl summary_text object_name of
        Inl e \<Rightarrow> (tr2, Inl e)
      | Inr obj_in \<Rightarrow> (tr2, Inr (obj_in, summary_text, skills_text))))))))))"

text \<open>
  \<^verbatim>\<open>create_job_offer\<close>: the rest of the \<^verbatim>\<open>try\<close> block, and the \<^verbatim>\<open>except\<close> clause
  for every exception of either part.
\<close>

definition create_job_offer ::
  "world \<Rightarrow> string \<Rightarrow> UploadFile \<Rightarrow> action list \<times> (pyexn + json)" where
  "create_job_offer w ttl document =
     (case before_create w ttl document of
        (tr, Inl e) \<Rightarrow> on_exception w None tr e
      | (tr, Inr (obj_in, summary_text, skills_text)) \<Rightarrow>
     (case repo_create w obj_in of
        Inl e \<Rightarrow> on_exception w None (tr @ [RepoCreate obj_in (Inl e)]) e
      | Inr job_offer \<Rightarrow>
     (let tr3 = tr @ [RepoCreate obj_in (Inr job_offer)]
      in
     (case parse_skills_of (loads w) skills_text of
        Inl e \<Rightarrow> on_exception w (Some job_offer) tr3 e
      | Inr skills \<Rightarrow>
     (case bulk_create w (jo_id job_offer) skills of
        (tr4, Inl e) \<Rightarrow> on_exception w (Some job_offer) (tr3 @ tr4) e
      | (tr4, Inr db_skills) \<Rightarrow>
          (tr3 @ tr4,
           Inr (JObj [(''id'', JInt (jo_id job_offer)),
                      (''title'', JStr (jo_title job_offer)),
                      (''summary'', summary_text),
                      (''skills'', skills_text)])))))))"

text \<open>The records created and the records removed, read off what was done.\<close>

fun created_ids :: "action list \<Rightarrow> int list" where
  "created_ids [] = []"
| "created_ids (RepoCreate obj_in (Inr jo) # tr) = jo_id jo # created_ids tr"
| "created_ids (a # tr) = created_ids tr"

fun removed_ids :: "action list \<Rightarrow> int list" where
  "removed_ids [] = []"
| "removed_ids (RepoRemove i # tr) = i # removed_ids tr"
| "removed_ids (a # tr) = removed_ids tr"

fun flows_run :: "action list \<Rightarrow> string list" where
  "flows_run [] = []"
| "flows_run (RunFlow f # tr) = f # flows_run tr"
| "flows_run (a # tr) = flows_run tr"

section \<open>A JSON decoder for the sample documents\<close>

text \<open>
  \<open>json_loads\<close> decodes the fragment of JSON made of objects, arrays, strings without
  escape sequences, integers, \<^verbatim>\<open>true\<close>, \<^verbatim>\<open>false\<close> and \<^verbatim>\<open>null\<close>, with the
  whitespace of JSON, and reports everything else as a decode error. On this fragment
  it is \<^verbatim>\<open>json.loads\<close>; the general theorems below hold for every decoder, and this
  one gives them sample inputs.
\<close>

datatype token =
    TLBrace | TRBrace | TLBrack | TRBrack | TColon | TComma
  | TStr string | TNum int | TWord string

definition is_json_ws :: "char \<Rightarrow> bool" where
  "is_json_ws ch \<longleftrightarrow> ch = CHR '' '' \<or> ch = CHR 0x09 \<or> ch = CHR 0x0A \<or> ch = CHR 0x0D"

definition is_digit :: "char \<Rightarrow> bool" where
  "is_digit ch \<longleftrightarrow> 48 \<le> (of_char ch :: nat) \<and> (of_char ch :: nat) \<le> 57"

definition is_letter :: "char \<Rightarrow> bool" where
  "is_letter ch \<longleftrightarrow>
     (let n = (of_char ch :: nat) in (65 \<le> n \<and> n \<le> 90) \<or> (97 \<le> n \<and> n \<le> 122))"

definition is_plain :: "char \<Rightarrow> bool" where
  "is_plain ch \<longleftrightarrow> ch \<noteq> CHR 0x22 \<and> ch \<noteq> CHR 0x5C \<and> 32 \<le> (of_char ch :: nat)"

fun digits_value :: "int \<Rightarrow> string \<Rightarrow> int" where
  "digits_value acc [] = acc"
| "digits_value acc (ch # r) = digits_value (10 * acc + (int (of_char ch) - 48)) r"

definition well_formed_digits :: "string \<Rightarrow> bool" where
  "well_formed_digits ds \<longleftrightarrow> ds \<noteq> [] \<and> (length ds = 1 \<or> hd ds \<noteq> CHR ''0'')"

fun lex :: "string \<Rightarrow> token list option" where
  "lex [] = Some []"
| "lex (ch # r) =
     (if is_json_ws ch then lex r
      else if ch = CHR ''{'' then map_option ((#) TLBrace) (lex r)
      else if ch = CHR ''}'' then map_option ((#) TRBrace) (lex r)
      else if ch = CHR ''['' then map_option ((#) TLBrack) (lex r)
      else if ch = CHR '']'' then map_option ((#) TRBrack) (lex r)
      else if ch = CHR '':'' then map_option ((#) TColon) (lex r)
      else if ch = CHR '','' then map_option ((#) TComma) (lex r)
      else if ch = CHR 0x22 then
        (let s = takeWhile is_plain r
         in if prefix [CHR 0x22] (drop (length s) r)
            then map_option ((#) (TStr s)) (lex (drop (Suc (length s)) r))
            else None)
      else if ch = CHR ''-'' then
        (let ds = takeWhile is_digit r
         in if well_formed_digits ds
            then map_option ((#) (TNum (- digits_value 0 ds))) (lex (drop (length ds) r))
            else None)
      else if is_digit ch then
        (let ds = ch # takeWhile is_digit r
         in if well_formed_digits ds
            then map_option ((#) (TNum (digits_value 0 ds))) (lex (drop (length ds - 1) r))
            else None)
      else if is_letter ch then
        (let w = takeWhile is_letter r
         in map_option ((#) (TWord (ch # w))) (lex (drop (length w) r)))
      else None)"

datatype frame = FArr "json list" | FObj "json dict" | FKey "json dict" string

datatype pstate = PValue | PArrFirst | PObjFirst | PKey | PColon string | PAfter json

fun start_value :: "token \<Rightarrow> frame list \<Rightarrow> (pstate \<times> frame list) option" where
  "start_value (TStr s) st = Some (PAfter (JStr s), st)"
| "start_value (TNum n) st = Some (PAfter (JInt n), st)"
| "start_value (TWord w) st =
     (if w = ''true'' then Some (PAfter (JBool True), st)
      else if w = ''false'' then Some (PAfter (JBool False), st)
      else if w = ''null'' then Some (PAfter JNull, st)
      else None)"
| "start_value TLBrack st = Some (PArrFirst, FArr [] # st)"
| "start_value TLBrace st = Some (PObjFirst, FObj [] # st)"
| "start_value tok st = None"

fun pstep :: "token \<Rightarrow> pstate \<Rightarrow> frame list \<Rightarrow> (pstate \<times> frame list) option" where
  "pstep tok PValue st = start_value tok st"
| "pstep TRBrack PArrFirst (FArr vs # st) = Some (PAfter (JArr vs), st)"
| "pstep tok PArrFirst st = start_value tok st"
| "pstep TRBrace PObjFirst (FObj d # st) = Some (PAfter (JObj d), st)"
| "pstep (TStr k) PObjFirst st = Some (PColon k, st)"
| "pstep (TStr k) PKey st = Some (PColon k, st)"
| "pstep TColon (PColon k) (FObj d # st) = Some (PValue, FKey d k # st)"
| "pstep TComma (PAfter v) (FArr vs # st) = Some (PValue, FArr (vs @ [v]) # st)"
| "pstep TRBrack (PAfter v) (FArr vs # st) = Some (PAfter (JArr (vs @ [v])), st)"
| "pstep TComma (PAfter v) (FKey d k # st) = Some (PKey, FObj (dict_set d k v) # st)"
| "pstep TRBrace (PAfter v) (FKey d k # st) = Some (PAfter (JObj (dict_set d k v)), st)"
| "pstep tok ps st = None"

fun prun :: "token list \<Rightarrow> pstate \<Rightarrow> frame list \<Rightarrow> json option" where
  "prun [] (PAfter v) [] = Some v"
| "prun [] ps st = None"
| "prun (tok # toks) ps st =
     (case pstep tok ps st of
        None \<Rightarrow> None
      | Some (ps', st') \<Rightarrow> prun toks ps' st')"

definition json_loads :: decoder where
  "json_loads s =
     (case lex s of
        None \<Rightarrow> Inl JSONDecodeError
      | Some toks \<Rightarrow>
          (case prun toks PValue [] of
             None \<Rightarrow> Inl JSONDecodeError
           | Some v \<Rightarrow> Inr v))"

section \<open>Sample documents and collaborators\<close>

text \<open>\<^verbatim>\<open>isinstance(v, list)\<close> and \<^verbatim>\<open>isinstance(v, dict)\<close>.\<close>

fun is_list :: "json \<Rightarrow> bool" where
  "is_list (JArr vs) = True"
| "is_list v = False"

fun is_record :: "json \<Rightarrow> bool" where
  "is_record (JObj d) = True"
| "is_record v = False"

text \<open>The keys \<^verbatim>\<open>bulk_create\<close> subscripts, and a record that lacks one of them.\<close>

definition required_keys :: "string list" where
  "required_keys = [''skill'', ''expertise_level'', ''priority'']"

fun lacks_key :: "json \<Rightarrow> bool" where
  "lacks_key (JObj d) = list_ex (\<lambda>k. map_of d k = None) required_keys"
| "lacks_key v = False"

text \<open>
  A decoder of bytes that is UTF-8 on ASCII, a PDF reader that finds the given page
  texts, and Python's \<^verbatim>\<open>str()\<close> on the values the samples hold.
\<close>

definition ascii_decode :: "bytes \<Rightarrow> pyexn + string" where
  "ascii_decode b =
     (if list_all (\<lambda>ch. (of_char ch :: nat) < 128) b then Inr b
      else Inl UnicodeDecodeError)"

definition pages_lib :: "string list \<Rightarrow> doc_lib" where
  "pages_lib ts = \<lparr> PdfReader = (\<lambda>b. Inr (map Inr ts)), decode_utf8 = ascii_decode \<rparr>"

fun sample_str :: "json \<Rightarrow> string" where
  "sample_str (JStr s) = s"
| "sample_str (JInt n) = (if n < 0 then ''-'' @ str_nat (nat (- n)) else str_nat (nat n))"
| "sample_str (JBool b) = (if b then ''True'' else ''False'')"
| "sample_str v = ''None''"

definition five_pages :: "string list" where
  "five_pages = [''a'', ''b'', ''c'', ''d'', ''e'']"

definition seven_pages :: "string list" where
  "seven_pages = [''p1'', ''p2'', ''p3'', ''p4'', ''p5'', ''p6'', ''p7'']"

definition pdf_document :: UploadFile where
  "pdf_document =
     \<lparr> content_type = Some ''application/pdf'', filename = Some ''offer.pdf'',
       content = ''%PDF-1.4'' \<rparr>"

definition png_document :: UploadFile where
  "png_document =
     \<lparr> content_type = Some ''image/png'', filename = Some ''offer.png'',
       content = ''PNG'' \<rparr>"

definition blank_document :: UploadFile where
  "blank_document =
     \<lparr> content_type = Some ''text/plain'', filename = Some ''offer.txt'',
       content = [CHR '' '', CHR 0x0A, CHR '' ''] \<rparr>"

definition undecodable_document :: UploadFile where
  "undecodable_document =
     \<lparr> content_type = Some ''text/plain'', filename = Some ''offer.txt'',
       content = [CHR 0xFF, CHR 0xFE] \<rparr>"

definition text_document :: UploadFile where
  "text_document =
     \<lparr> content_type = Some ''text/plain'', filename = Some ''offer.txt'',
       content = ''Go developer wanted'' \<rparr>"

text \<open>
  The texts of a skills answer: JSON whose \<^verbatim>\<open>skills\<close> field is no list, the example of
  the specification, a JSON string that holds a fenced block, prose around a fenced
  block, prose, and two fenced blocks of which the first is no JSON.
\<close>

definition skills_number_text :: string where
  \<open>skills_number_text = ''{"skills": 5}''\<close>

definition skills_go_text :: string where
  \<open>skills_go_text = ''{"skills":[{"skill":"Go"}]}''\<close>



definition prose_text :: string where
  "prose_text = ''not json at all''"


text \<open>
  A flow server that answers every call with the envelope around the skills example,
  and a world around it: the storage and the repositories succeed, and the repository
  gives the record the id 7.
\<close>

definition envelope :: "json \<Rightarrow> json" where
  "envelope v =
     JObj [(''outputs'',
       JArr [JObj [(''outputs'',
         JArr [JObj [(''results'',
           JObj [(''text'', JObj [(''data'', JObj [(''text'', v)])])])]])]])]"

definition flow_server :: "real \<Rightarrow> transport" where
  "flow_server tmo req =
     Inr \<lparr> status_code = 200, reason_phrase = ''OK'',
           json_body = Some (envelope (JStr skills_go_text)),
           text_chunks = [], body_lines = [] \<rparr>"

definition demo_world :: world where
  "demo_world =
     \<lparr> doc = pages_lib five_pages,
       upload_file = (\<lambda>f bucket. Inr ''3f0c.txt''),
       job_offers_bucket_name = ''job_offers'',
       AsyncClient = flow_server,
       langflow_client = demo_client,
       SUMMARY_FLOW_ID = ''summary-flow'',
       SKILLS_FLOW_ID = ''skills-flow'',
       loads = json_loads,
       repo_create = (\<lambda>obj_in. Inr \<lparr> jo_id = 7, jo_title = title obj_in \<rparr>),
       repo_remove = (\<lambda>i. Inr ()),
       db_commit = (\<lambda>db_skills. Inr db_skills),
       to_str = sample_str \<rparr>"

definition down_world :: world where
  "down_world = demo_world \<lparr> AsyncClient := failing_server \<rparr>"

section \<open>Header merging\<close>

lemma map_of_dict_set: "map_of (dict_set d k v) = (map_of d)(k \<mapsto> v)"
  by (induction d) (auto simp: fun_eq_iff)

lemma map_of_fold_dict_set:
  "distinct (map fst hs) \<Longrightarrow>
   map_of (fold (\<lambda>(key, val) d. dict_set d key val) hs d) = map_of d ++ map_of hs"
proof (induction hs arbitrary: d)
  case Nil
  then show ?case by simp
next
  case (Cons kv hs)
  obtain k v where kv: "kv = (k, v)" by (cases kv)
  from Cons.prems kv have fresh: "k \<notin> fst ` set hs" and dist: "distinct (map fst hs)"
    by auto
  have none: "map_of hs k = None"
    using fresh by (simp add: map_of_eq_None_iff)
  have swap: "(map_of d)(k \<mapsto> v) ++ map_of hs = map_of d ++ map_of ((k, v) # hs)"
  proof (rule ext)
    fix x
    show "((map_of d)(k \<mapsto> v) ++ map_of hs) x = (map_of d ++ map_of ((k, v) # hs)) x"
      using none by (cases "x = k") (simp_all add: map_add_def split: option.splits)
  qed
  have "map_of (fold (\<lambda>(key, val) d. dict_set d key val) (kv # hs) d)
          = map_of (dict_set d k v) ++ map_of hs"
    using Cons.IH [OF dist, of "dict_set d k v"] kv by simp
  also have "\<dots> = map_of d ++ map_of (kv # hs)"
    using swap kv by (simp only: map_of_dict_set)
  finally show ?case .
qed

text \<open>
  C5. The effective headers are the default headers overridden by the per-call headers,
  and then \<^verbatim>\<open>x-api-key\<close> holds the configured, non-empty API key whatever the caller
  supplied under that name; these are the headers a request and a streamed request are
  sent with. The per-call headers are a dictionary: their keys are distinct. The example
  of the specification follows the theorem, in the order Python keeps.
\<close>

theorem set_headers_effective:
  assumes "api_key c \<noteq> []" and "distinct (map fst hs)"
  shows "map_of (set_headers c hs) k =
           (if k = ''x-api-key'' then Some (api_key c)
            else case map_of hs k of
                   Some v \<Rightarrow> Some v
                 | None \<Rightarrow> map_of (default_headers c) k) \<and>
         (headers options = Some hs \<longrightarrow>
            req_headers (request_sent c options) = set_headers c hs \<and>
            req_headers (stream_sent c options) = set_headers c hs)"
proof -
  have fold_eq:
    "map_of (if hs \<noteq> []
             then fold (\<lambda>(key, val) d. dict_set d key val) hs (default_headers c)
             else default_headers c) = map_of (default_headers c) ++ map_of hs"
    using map_of_fold_dict_set [OF assms(2), of "default_headers c"]
    by (cases "hs = []") simp_all
  have "set_headers c hs =
          dict_set (if hs \<noteq> []
                    then fold (\<lambda>(key, val) d. dict_set d key val) hs (default_headers c)
                    else default_headers c) ''x-api-key'' (api_key c)"
    using assms(1) by (simp add: set_headers_def set_api_key_def Let_def)
  then have "map_of (set_headers c hs)
          = (map_of (default_headers c) ++ map_of hs)(''x-api-key'' \<mapsto> api_key c)"
    by (simp only: map_of_dict_set fold_eq)
  then have merged:
    "map_of (set_headers c hs) k =
       (if k = ''x-api-key'' then Some (api_key c)
        else case map_of hs k of
               Some v \<Rightarrow> Some v
             | None \<Rightarrow> map_of (default_headers c) k)"
    by (simp add: map_add_def split: option.splits)
  have sent:
    "headers options = Some hs \<longrightarrow>
       req_headers (request_sent c options) = set_headers c hs \<and>
       req_headers (stream_sent c options) = set_headers c hs"
    by (simp add: request_sent_def stream_sent_def dict_or_empty_def Let_def)
  from merged sent show ?thesis by (rule conjI)
qed

theorem set_headers_effective_witness:
  "api_key demo_client \<noteq> [] \<and> distinct (map fst [(''A'', ''2''), (''B'', ''3'')]) \<and>
   headers merge_options = Some [(''A'', ''2''), (''B'', ''3'')] \<and>
   map_of (set_headers demo_client [(''A'', ''2''), (''B'', ''3'')]) ''A'' = Some ''2'' \<and>
   map_of (set_headers demo_client [(''A'', ''2''), (''B'', ''3'')]) ''x-api-key''
     = Some ''k3y'' \<and>
   set_headers demo_client [(''A'', ''2''), (''B'', ''3'')]
     = [(''A'', ''2''), (''B'', ''3''), (''x-api-key'', ''k3y'')] \<and>
   req_headers (request_sent demo_client merge_options)
     = [(''A'', ''2''), (''B'', ''3''), (''x-api-key'', ''k3y'')]"
proof -
  have key: "api_key demo_client \<noteq> []"
    by (simp add: demo_client_def)
  have dist: "distinct (map fst [(''A'', ''2''), (''B'', ''3'')])"
    by simp
  have opts: "headers merge_options = Some [(''A'', ''2''), (''B'', ''3'')]"
    by (simp add: merge_options_def demo_options_def)
  have merged: "set_headers demo_client [(''A'', ''2''), (''B'', ''3'')]
                  = [(''A'', ''2''), (''B'', ''3''), (''x-api-key'', ''k3y'')]"
    by (simp add: demo_client_def set_headers_def set_api_key_def)
  note at_A = set_headers_effective [OF key dist, of "''A''" merge_options]
  note at_key = set_headers_effective [OF key dist, of "''x-api-key''" merge_options]
  have a: "map_of (set_headers demo_client [(''A'', ''2''), (''B'', ''3'')]) ''A'' = Some ''2''"
    using at_A by simp
  have k: "map_of (set_headers demo_client [(''A'', ''2''), (''B'', ''3'')]) ''x-api-key''
             = Some ''k3y''"
    using at_key by (simp add: demo_client_def)
  have sent: "req_headers (request_sent demo_client merge_options)
                = [(''A'', ''2''), (''B'', ''3''), (''x-api-key'', ''k3y'')]"
    using at_A opts merged by simp
  show ?thesis by (intro conjI key dist opts a k merged sent)
qed

section \<open>Error classification of a flow call\<close>

text \<open>
  C6. A non-streaming call that receives a response whose status is not 2xx raises the
  plain \<^verbatim>\<open>LangflowError\<close>: its message is built from the status code and the status
  text, it carries the response object, and it is not a \<^verbatim>\<open>LangflowRequestError\<close>.
  \<^verbatim>\<open>Flow.run\<close> without streaming raises what the request raised.
\<close>

theorem request_non_2xx:
  assumes "open_client mk c options (request_sent c options) = Inr r"
    and "\<not> is_success r"
  shows "request mk c options
           = Inl (LangflowError [IntP (status_code r), Lit '' - '', Lit (reason_phrase r)]
                    (Some r)) \<and>
         (\<exists>e. request mk c options = Inl e \<and> is_flow_error e
               \<and> \<not> is_request_error e) \<and>
         (options = run_options f inputs \<longrightarrow>
            run ld mk c f inputs False
              = Inl (LangflowError
                       [IntP (status_code r), Lit '' - '', Lit (reason_phrase r)]
                       (Some r)))"
proof -
  have raised:
    "request mk c options
       = Inl (LangflowError [IntP (status_code r), Lit '' - '', Lit (reason_phrase r)]
                (Some r))"
    using assms by (simp add: request_def Let_def)
  have ran:
    "options = run_options f inputs \<longrightarrow>
       run ld mk c f inputs False
         = Inl (LangflowError
                  [IntP (status_code r), Lit '' - '', Lit (reason_phrase r)] (Some r))"
  proof
    assume o: "options = run_options f inputs"
    show "run ld mk c f inputs False
            = Inl (LangflowError
                     [IntP (status_code r), Lit '' - '', Lit (reason_phrase r)] (Some r))"
      using raised [unfolded o] by (simp add: run_def)
  qed
  from raised ran show ?thesis by simp
qed

theorem request_non_2xx_witness:
  "open_client failing_server demo_client demo_options
     (request_sent demo_client demo_options) = Inr response_500 \<and>
   \<not> is_success response_500 \<and>
   request failing_server demo_client demo_options
     = Inl (LangflowError [IntP 500, Lit '' - '', Lit ''Internal Server Error'']
              (Some response_500)) \<and>
   demo_options = run_options demo_flow None \<and>
   run json_loads failing_server demo_client demo_flow None False
     = Inl (LangflowError [IntP 500, Lit '' - '', Lit ''Internal Server Error'']
              (Some response_500))"
proof -
  have got: "open_client failing_server demo_client demo_options
               (request_sent demo_client demo_options) = Inr response_500"
    by (simp add: open_client_def failing_server_def demo_client_def)
  have bad: "\<not> is_success response_500"
    by (simp add: is_success_def response_500_def)
  have opts: "demo_options = run_options demo_flow None"
    by (simp add: demo_options_def run_options_def demo_flow_def dict_or_empty_def)
  note main = request_non_2xx [OF got bad, of demo_flow None json_loads]
  have code: "status_code response_500 = 500"
    and phrase: "reason_phrase response_500 = ''Internal Server Error''"
    by (simp_all add: response_500_def)
  have req: "request failing_server demo_client demo_options
               = Inl (LangflowError [IntP 500, Lit '' - '', Lit ''Internal Server Error'']
                        (Some response_500))"
    using main code phrase by simp
  have ran: "run json_loads failing_server demo_client demo_flow None False
               = Inl (LangflowError [IntP 500, Lit '' - '', Lit ''Internal Server Error'']
                        (Some response_500))"
    using main opts code phrase by simp
  show ?thesis by (intro conjI got bad req opts ran)
qed

text \<open>
  C7 (as the specification reads). The timeout the message names would be the per-call
  override whenever one is supplied. An override of zero is supplied and not used:
  \<^verbatim>\<open>options.timeout or self.timeout\<close> takes the client default, and the message names
  30, not 0.
\<close>

theorem timeout_override_counterexample:
  "timeout zero_override_options = Some 0 \<and>
   spec_effective_timeout demo_client zero_override_options = 0 \<and>
   request slow_server demo_client zero_override_options
     = Inl (LangflowRequestError [Lit ''Request timed out after '', NumP 30, Lit ''s'']
              TimeoutException) \<and>
   request slow_server demo_client zero_override_options
     \<noteq> Inl (LangflowRequestError
              [Lit ''Request timed out after '',
               NumP (spec_effective_timeout demo_client zero_override_options), Lit ''s'']
              TimeoutException)"
  by (simp add: request_def open_client_def slow_server_def demo_client_def
        zero_override_options_def demo_options_def effective_timeout_def num_or_def
        spec_effective_timeout_def)

text \<open>
  C7 (amended). A call that times out raises a \<^verbatim>\<open>LangflowRequestError\<close>, not the
  plain \<^verbatim>\<open>LangflowError\<close>, whose message names the effective timeout: the per-call
  override when one is supplied and is not zero, the client default otherwise.
  \<^verbatim>\<open>Flow.run\<close> supplies no override, so its message names the client default.
\<close>

theorem timeout_is_request_error:
  "(open_client mk c options (request_sent c options) = Inl TimeoutException \<longrightarrow>
      request mk c options
        = Inl (LangflowRequestError
                 [Lit ''Request timed out after '', NumP (effective_timeout c options),
                  Lit ''s''] TimeoutException)) \<and>
   effective_timeout c options
     = (case timeout options of
          None \<Rightarrow> client_timeout c
        | Some t \<Rightarrow> if t = 0 then client_timeout c else t) \<and>
   (\<forall>e. request mk c options = Inl e \<and>
        open_client mk c options (request_sent c options) = Inl TimeoutException \<longrightarrow>
        is_request_error e \<and> \<not> is_flow_error e) \<and>
   (options = run_options f inputs \<and>
    open_client mk c options (request_sent c options) = Inl TimeoutException \<longrightarrow>
      run ld mk c f inputs False
        = Inl (LangflowRequestError
                 [Lit ''Request timed out after '', NumP (client_timeout c), Lit ''s'']
                 TimeoutException))"
proof -
  have req:
    "open_client mk c options (request_sent c options) = Inl TimeoutException \<longrightarrow>
       request mk c options
         = Inl (LangflowRequestError
                  [Lit ''Request timed out after '', NumP (effective_timeout c options),
                   Lit ''s''] TimeoutException)"
    by (simp add: request_def Let_def)
  have eff:
    "effective_timeout c options
       = (case timeout options of
            None \<Rightarrow> client_timeout c
          | Some t \<Rightarrow> if t = 0 then client_timeout c else t)"
    by (simp add: effective_timeout_def num_or_def)
  have kind:
    "\<forall>e. request mk c options = Inl e \<and>
         open_client mk c options (request_sent c options) = Inl TimeoutException \<longrightarrow>
         is_request_error e \<and> \<not> is_flow_error e"
    using req by auto
  have ran:
    "options = run_options f inputs \<and>
     open_client mk c options (request_sent c options) = Inl TimeoutException \<longrightarrow>
       run ld mk c f inputs False
         = Inl (LangflowRequestError
                  [Lit ''Request timed out after '', NumP (client_timeout c), Lit ''s'']
                  TimeoutException)"
  proof
    assume a: "options = run_options f inputs \<and>
               open_client mk c options (request_sent c options) = Inl TimeoutException"
    then have o: "options = run_options f inputs"
      and t: "open_client mk c options (request_sent c options) = Inl TimeoutException"
      by blast+
    have "timeout options = None"
      unfolding o by (simp add: run_options_def Let_def)
    with eff have e: "effective_timeout c options = client_timeout c" by simp
    from req t have "request mk c options
         = Inl (LangflowRequestError
                  [Lit ''Request timed out after '', NumP (effective_timeout c options),
                   Lit ''s''] TimeoutException)"
      by blast
    then have "request mk c (run_options f inputs)
         = Inl (LangflowRequestError
                  [Lit ''Request timed out after '', NumP (client_timeout c), Lit ''s'']
                  TimeoutException)"
      unfolding e unfolding o .
    then show "run ld mk c f inputs False
         = Inl (LangflowRequestError
                  [Lit ''Request timed out after '', NumP (client_timeout c), Lit ''s'']
                  TimeoutException)"
      by (simp add: run_def)
  qed
  show ?thesis by (intro conjI req eff kind ran)
qed

theorem timeout_is_request_error_witness:
  "open_client slow_server demo_client override_options
     (request_sent demo_client override_options) = Inl TimeoutException \<and>
   timeout override_options = Some 5 \<and>
   request slow_server demo_client override_options
     = Inl (LangflowRequestError [Lit ''Request timed out after '', NumP 5, Lit ''s'']
              TimeoutException) \<and>
   is_request_error
     (LangflowRequestError [Lit ''Request timed out after '', NumP 5, Lit ''s'']
        TimeoutException) \<and>
   demo_options = run_options demo_flow None \<and>
   open_client slow_server demo_client demo_options
     (request_sent demo_client demo_options) = Inl TimeoutException \<and>
   run json_loads slow_server demo_client demo_flow None False
     = Inl (LangflowRequestError [Lit ''Request timed out after '', NumP 30, Lit ''s'']
              TimeoutException)"
proof -
  have slow: "\<And>options req. open_client slow_server demo_client options req
                 = Inl TimeoutException"
    by (simp add: open_client_def slow_server_def demo_client_def)
  have given: "timeout override_options = Some 5"
    by (simp add: override_options_def demo_options_def)
  have eff: "effective_timeout demo_client override_options = 5"
    by (simp add: effective_timeout_def num_or_def override_options_def demo_options_def)
  have opts: "demo_options = run_options demo_flow None"
    by (simp add: demo_options_def run_options_def demo_flow_def dict_or_empty_def)
  have dflt: "client_timeout demo_client = 30"
    by (simp add: demo_client_def)
  note over = timeout_is_request_error
                [of slow_server demo_client override_options demo_flow None json_loads]
  note plain = timeout_is_request_error
                 [of slow_server demo_client demo_options demo_flow None json_loads]
  have req: "request slow_server demo_client override_options
               = Inl (LangflowRequestError
                        [Lit ''Request timed out after '', NumP 5, Lit ''s'']
                        TimeoutException)"
    using over slow eff by simp
  have kind: "is_request_error
                (LangflowRequestError [Lit ''Request timed out after '', NumP 5, Lit ''s'']
                   TimeoutException)"
    by simp
  have ran: "run json_loads slow_server demo_client demo_flow None False
               = Inl (LangflowRequestError
                        [Lit ''Request timed out after '', NumP 30, Lit ''s'']
                        TimeoutException)"
    using plain slow opts dflt by simp
  show ?thesis by (intro conjI slow given req kind opts ran)
qed

text \<open>
  A streamed call never reaches the transport: whatever the server would do, the
  \<^verbatim>\<open>await\<close> of the context manager fails and the call ends in the error of the last
  \<^verbatim>\<open>except\<close> clause. Calls that can time out are the calls of \<^verbatim>\<open>request\<close>.
\<close>

lemma stream_unexpected_error:
  "stream ld mk c options
     = Inl (LangflowRequestError [Lit ''Unexpected stream error: '', ExnP TypeError]
              TypeError)"
  by (simp add: stream_def await_stream_def Let_def)

lemma run_streaming_unexpected_error:
  "run ld mk c f inputs True
     = Inl (LangflowRequestError [Lit ''Unexpected stream error: '', ExnP TypeError]
              TypeError)"
  by (simp add: run_def stream_unexpected_error)

section \<open>PDF extraction\<close>

lemma pdf_loop_all_pages:
  "pdf_loop n (map Inr ts) acc ys =
     (ys @ filter (\<lambda>i. i mod 5 = 0) [n..<n + length ts],
      Inr (acc @ concat (map (\<lambda>t. t @ [CHR 0x0A]) ts)))"
proof (induction ts arbitrary: n acc ys)
  case Nil
  then show ?case by simp
next
  case (Cons t ts)
  have "[n..<n + length (t # ts)] = n # [Suc n..<Suc n + length ts]"
    using upt_conv_Cons [of n "n + length (t # ts)"] by simp
  then show ?case
    using Cons.IH [of "Suc n"] by simp
qed

text \<open>
  C8 (as the specification reads). The text would be the page texts joined by newlines,
  and the loop would yield after every fifth page. For a PDF of five pages the text ends
  with a newline that a join does not give, and the only yield comes after the first
  page (page number 0), none after the fifth.
\<close>

theorem pdf_yield_counterexample:
  "extract_text_from_pdf (pages_lib five_pages) pdf_document =
     ([0], Inr (''a'' @ [CHR 0x0A] @ ''b'' @ [CHR 0x0A] @ ''c'' @ [CHR 0x0A] @ ''d''
                @ [CHR 0x0A] @ ''e'' @ [CHR 0x0A])) \<and>
   spec_joined_text five_pages =
     ''a'' @ [CHR 0x0A] @ ''b'' @ [CHR 0x0A] @ ''c'' @ [CHR 0x0A] @ ''d'' @ [CHR 0x0A] @ ''e'' \<and>
   snd (extract_text_from_pdf (pages_lib five_pages) pdf_document)
     \<noteq> Inr (spec_joined_text five_pages) \<and>
   spec_yield_points (length five_pages) = [4] \<and>
   fst (extract_text_from_pdf (pages_lib five_pages) pdf_document)
     \<noteq> spec_yield_points (length five_pages)"
  by (simp add: extract_text_from_pdf_def pages_lib_def five_pages_def spec_yield_points_def)

text \<open>
  C8 (amended). When the reader finds the pages and every page gives its text, the
  extracted text is the page texts in order, each followed by a newline; the loop yields
  after exactly the pages whose number, counted from 0, is a multiple of 5 (the first,
  the sixth, the eleventh, ...); so at least one yield occurs whenever there is a page,
  in particular for six pages or more.
\<close>

theorem pdf_text_and_yields:
  assumes "PdfReader lib (content pdf_file) = Inr (map Inr ts)"
  shows "extract_text_from_pdf lib pdf_file =
           (filter (\<lambda>i. i mod 5 = 0) [0..<length ts],
            Inr (concat (map (\<lambda>t. t @ [CHR 0x0A]) ts))) \<and>
         (1 \<le> length ts \<longrightarrow> 0 \<in> set (fst (extract_text_from_pdf lib pdf_file)))"
proof -
  have run: "extract_text_from_pdf lib pdf_file =
           (filter (\<lambda>i. i mod 5 = 0) [0..<length ts],
            Inr (concat (map (\<lambda>t. t @ [CHR 0x0A]) ts)))"
    using assms pdf_loop_all_pages [of 0 ts "[]" "[]"]
    by (simp add: extract_text_from_pdf_def)
  show ?thesis
    unfolding run by (cases ts) simp_all
qed

theorem pdf_text_and_yields_witness:
  "PdfReader (pages_lib seven_pages) (content pdf_document) = Inr (map Inr seven_pages) \<and>
   1 \<le> length seven_pages \<and>
   extract_text_from_pdf (pages_lib seven_pages) pdf_document =
     ([0, 5],
      Inr (''p1'' @ [CHR 0x0A] @ ''p2'' @ [CHR 0x0A] @ ''p3'' @ [CHR 0x0A] @ ''p4''
           @ [CHR 0x0A] @ ''p5'' @ [CHR 0x0A] @ ''p6'' @ [CHR 0x0A] @ ''p7'' @ [CHR 0x0A]))"
  using pdf_text_and_yields [of "pages_lib seven_pages" pdf_document seven_pages]
  by (simp add: pages_lib_def seven_pages_def)

section \<open>The skill response parser: what it returns and what it calls\<close>

lemma run_decoded:
  "ld t = Inr data \<Longrightarrow> parse_skills_run ld t = ([Loads t], Inr (skills_or_empty data))"
  by (simp add: parse_skills_run_def)

lemma run_raises:
  "ld t = Inl e \<Longrightarrow> e \<noteq> JSONDecodeError \<Longrightarrow> parse_skills_run ld t = ([Loads t], Inl e)"
  by (cases e) (simp_all add: parse_skills_run_def)

lemma run_no_fence:
  "ld t = Inl JSONDecodeError \<Longrightarrow> fence_search t = None \<Longrightarrow>
   parse_skills_run ld t = ([Loads t, Search t], Inr (JArr []))"
  by (simp add: parse_skills_run_def)

lemma run_fence_decoded:
  "ld t = Inl JSONDecodeError \<Longrightarrow> fence_search t = Some g \<Longrightarrow> ld g = Inr data \<Longrightarrow>
   parse_skills_run ld t = ([Loads t, Search t, Loads g], Inr (skills_or_empty data))"
  by (simp add: parse_skills_run_def)

lemma run_fence_undecoded:
  "ld t = Inl JSONDecodeError \<Longrightarrow> fence_search t = Some g \<Longrightarrow> ld g = Inl JSONDecodeError \<Longrightarrow>
   parse_skills_run ld t = ([Loads t, Search t, Loads g], Inr (JArr []))"
  by (simp add: parse_skills_run_def)

lemma run_fence_raises:
  "ld t = Inl JSONDecodeError \<Longrightarrow> fence_search t = Some g \<Longrightarrow> ld g = Inl e \<Longrightarrow>
   e \<noteq> JSONDecodeError \<Longrightarrow>
   parse_skills_run ld t = ([Loads t, Search t, Loads g], Inl e)"
  by (cases e) (simp_all add: parse_skills_run_def)

lemma skills_or_empty_field:
  "skills_or_empty data = v \<Longrightarrow> v \<noteq> JArr [] \<Longrightarrow>
   \<exists>d. data = JObj d \<and> map_of d ''skills'' = Some v"
  by (cases data) (auto simp: skills_or_empty_def split: option.splits)

lemma skills_or_empty_none:
  "skills_field data = None \<Longrightarrow> skills_or_empty data = JArr []"
  by (simp add: skills_or_empty_def)


lemmas json_eval = json_loads_def is_json_ws_def is_plain_def is_digit_def is_letter_def
  well_formed_digits_def

lemma loads_number: "json_loads skills_number_text = Inr (JObj [(''skills'', JInt 5)])"
  by (simp add: json_eval skills_number_text_def)

lemma loads_go:
  "json_loads skills_go_text = Inr (JObj [(''skills'', JArr [JObj [(''skill'', JStr ''Go'')]])])"
  by (simp add: json_eval skills_go_text_def)

lemma loads_prose: "json_loads prose_text = Inl JSONDecodeError"
  by (simp add: json_eval prose_text_def)




lemma fence_prose: "fence_search prose_text = None"
  by (simp add: prose_text_def)







lemma json_loads_decode_errors_only:
  "json_loads s = Inl JSONDecodeError \<or> (\<exists>v. json_loads s = Inr v)"
  by (simp add: json_loads_def split: option.splits)

text \<open>
  C3. The parser hands out the \<^verbatim>\<open>skills\<close> field as it was decoded and never looks at
  it, although its signature promises \<^verbatim>\<open>List[Dict[str, Any]]\<close>. For every decoder
  and every text: when the whole text decodes to an object with a \<^verbatim>\<open>skills\<close> field the
  result is that field's value, whatever it is; when it decodes to anything else the
  result is the empty list; when it does not decode and holds no fenced block the
  result is the empty list; the parser returns a value exactly when the decoder raises
  nothing but decode errors on the texts it is given (the whole text, and the fenced
  block after a decode error), and any other exception of the decoder leaves the
  parser; and every result other than the empty list is the \<^verbatim>\<open>skills\<close> field of the
  object decoded from the whole text or from the fenced block.
\<close>

theorem parse_skills_field_unchecked:
  "(\<forall>d v. ld skills_text = Inr (JObj d) \<and> map_of d ''skills'' = Some v \<longrightarrow>
          parse_skills_response ld skills_text = Inr v) \<and>
   (\<forall>data. ld skills_text = Inr data \<and> skills_field data = None \<longrightarrow>
          parse_skills_response ld skills_text = Inr (JArr [])) \<and>
   (ld skills_text = Inl JSONDecodeError \<and> fence_search skills_text = None \<longrightarrow>
      parse_skills_response ld skills_text = Inr (JArr [])) \<and>
   ((\<exists>v. parse_skills_response ld skills_text = Inr v) \<longleftrightarrow>
      (\<exists>data. ld skills_text = Inr data) \<or>
      (ld skills_text = Inl JSONDecodeError \<and>
       (\<forall>g. fence_search skills_text = Some g \<longrightarrow>
            ld g = Inl JSONDecodeError \<or> (\<exists>data. ld g = Inr data)))) \<and>
   (\<forall>e. ld skills_text = Inl e \<and> e \<noteq> JSONDecodeError \<longrightarrow>
        parse_skills_response ld skills_text = Inl e) \<and>
   (\<forall>v. parse_skills_response ld skills_text = Inr v \<and> v \<noteq> JArr [] \<longrightarrow>
        (\<exists>s d. (s = skills_text \<or> fence_search skills_text = Some s) \<and>
               ld s = Inr (JObj d) \<and> map_of d ''skills'' = Some v))"
proof -
  have verbatim:
    "\<forall>d v. ld skills_text = Inr (JObj d) \<and> map_of d ''skills'' = Some v \<longrightarrow>
       parse_skills_response ld skills_text = Inr v"
  proof (intro allI impI, elim conjE)
    fix d v
    assume "ld skills_text = Inr (JObj d)" and "map_of d ''skills'' = Some v"
    then show "parse_skills_response ld skills_text = Inr v"
      using run_decoded [of ld skills_text "JObj d"]
      by (simp add: parse_skills_response_def skills_or_empty_def)
  qed
  have other:
    "\<forall>data. ld skills_text = Inr data \<and> skills_field data = None \<longrightarrow>
       parse_skills_response ld skills_text = Inr (JArr [])"
  proof (intro allI impI, elim conjE)
    fix data
    assume "ld skills_text = Inr data" and "skills_field data = None"
    then show "parse_skills_response ld skills_text = Inr (JArr [])"
      using run_decoded [of ld skills_text data]
      by (simp add: parse_skills_response_def skills_or_empty_none)
  qed
  have not_json:
    "ld skills_text = Inl JSONDecodeError \<and> fence_search skills_text = None \<longrightarrow>
       parse_skills_response ld skills_text = Inr (JArr [])"
    using run_no_fence [of ld skills_text] by (simp add: parse_skills_response_def)
  have raises:
    "\<forall>e. ld skills_text = Inl e \<and> e \<noteq> JSONDecodeError \<longrightarrow>
       parse_skills_response ld skills_text = Inl e"
  proof (intro allI impI, elim conjE)
    fix e
    assume "ld skills_text = Inl e" and "e \<noteq> JSONDecodeError"
    then show "parse_skills_response ld skills_text = Inl e"
      using run_raises [of ld skills_text e] by (simp add: parse_skills_response_def)
  qed
  have shape:
    "((\<exists>v. parse_skills_response ld skills_text = Inr v) \<longleftrightarrow>
        (\<exists>data. ld skills_text = Inr data) \<or>
        (ld skills_text = Inl JSONDecodeError \<and>
         (\<forall>g. fence_search skills_text = Some g \<longrightarrow>
              ld g = Inl JSONDecodeError \<or> (\<exists>data. ld g = Inr data)))) \<and>
     (\<forall>v. parse_skills_response ld skills_text = Inr v \<and> v \<noteq> JArr [] \<longrightarrow>
          (\<exists>s d. (s = skills_text \<or> fence_search skills_text = Some s) \<and>
                 ld s = Inr (JObj d) \<and> map_of d ''skills'' = Some v))"
  proof (cases "ld skills_text")
    case (Inr data)
    have res: "parse_skills_response ld skills_text = Inr (skills_or_empty data)"
      using Inr run_decoded [of ld skills_text data] by (simp add: parse_skills_response_def)
    show ?thesis
      using res Inr skills_or_empty_field [of data] by auto
  next
    case (Inl e)
    show ?thesis
    proof (cases "e = JSONDecodeError")
      case False
      have res: "parse_skills_response ld skills_text = Inl e"
        using Inl False run_raises [of ld skills_text e] by (simp add: parse_skills_response_def)
      show ?thesis
        using res Inl False by auto
    next
      case True
      with Inl have err: "ld skills_text = Inl JSONDecodeError" by simp
      show ?thesis
      proof (cases "fence_search skills_text")
        case None
        have res: "parse_skills_response ld skills_text = Inr (JArr [])"
          using err None run_no_fence [of ld skills_text] by (simp add: parse_skills_response_def)
        show ?thesis
          using res err None by auto
      next
        case (Some g)
        show ?thesis
        proof (cases "ld g")
          case (Inr data)
          have res: "parse_skills_response ld skills_text = Inr (skills_or_empty data)"
            using run_fence_decoded [of ld skills_text g data, OF err Some Inr]
            by (simp add: parse_skills_response_def)
          show ?thesis
            using res err Some Inr skills_or_empty_field [of data] by auto
        next
          case inner: (Inl e')
          show ?thesis
          proof (cases "e' = JSONDecodeError")
            case True
            with inner have un: "ld g = Inl JSONDecodeError" by simp
            have res: "parse_skills_response ld skills_text = Inr (JArr [])"
              using run_fence_undecoded [of ld skills_text g, OF err Some un]
              by (simp add: parse_skills_response_def)
            show ?thesis
              using res err Some un by auto
          next
            case False
            have res: "parse_skills_response ld skills_text = Inl e'"
              using run_fence_raises [of ld skills_text g e', OF err Some inner False]
              by (simp add: parse_skills_response_def)
            show ?thesis
              using res err Some inner False by auto
          qed
        qed
      qed
    qed
  qed
  from shape have total:
    "(\<exists>v. parse_skills_response ld skills_text = Inr v) \<longleftrightarrow>
       (\<exists>data. ld skills_text = Inr data) \<or>
       (ld skills_text = Inl JSONDecodeError \<and>
        (\<forall>g. fence_search skills_text = Some g \<longrightarrow>
             ld g = Inl JSONDecodeError \<or> (\<exists>data. ld g = Inr data)))"
    by (rule conjunct1)
  from shape have origin:
    "\<forall>v. parse_skills_response ld skills_text = Inr v \<and> v \<noteq> JArr [] \<longrightarrow>
       (\<exists>s d. (s = skills_text \<or> fence_search skills_text = Some s) \<and>
              ld s = Inr (JObj d) \<and> map_of d ''skills'' = Some v)"
    by (rule conjunct2)
  show ?thesis by (intro conjI verbatim other not_json total raises origin)
qed

text \<open>
  At the text \<^verbatim>\<open>{"skills": 5}\<close> the parser returns the number 5, which is no list, and
  \<^verbatim>\<open>bulk_create\<close>, which the route calls next, cannot iterate it. The example of the
  specification decodes to a list and is returned as it is, and prose gives the empty
  list.
\<close>

theorem parse_skills_field_unchecked_witness:
  "json_loads skills_number_text = Inr (JObj [(''skills'', JInt 5)]) \<and>
   parse_skills_response json_loads skills_number_text = Inr (JInt 5) \<and>
   \<not> is_list (JInt 5) \<and>
   bulk_create demo_world 7 (JInt 5) = ([], Inl TypeError) \<and>
   json_loads prose_text = Inl JSONDecodeError \<and> fence_search prose_text = None \<and>
   parse_skills_response json_loads prose_text = Inr (JArr []) \<and>
   json_loads skills_go_text = Inr (JObj [(''skills'', JArr [JObj [(''skill'', JStr ''Go'')]])]) \<and>
   parse_skills_response json_loads skills_go_text = Inr (JArr [JObj [(''skill'', JStr ''Go'')]])"
proof -
  have five: "map_of [(''skills'', JInt 5)] ''skills'' = Some (JInt 5)"
    by simp
  have field: "map_of [(''skills'', JArr [JObj [(''skill'', JStr ''Go'')]])] ''skills''
                 = Some (JArr [JObj [(''skill'', JStr ''Go'')]])"
    by simp
  have r0: "parse_skills_response json_loads skills_number_text = Inr (JInt 5)"
    using parse_skills_field_unchecked [of json_loads skills_number_text] loads_number five
    by blast
  have no_list: "\<not> is_list (JInt 5)"
    by simp
  have next_call: "bulk_create demo_world 7 (JInt 5) = ([], Inl TypeError)"
    by (simp add: bulk_create_def)
  have r1: "parse_skills_response json_loads prose_text = Inr (JArr [])"
    using parse_skills_field_unchecked [of json_loads prose_text] loads_prose fence_prose
    by blast
  have r2: "parse_skills_response json_loads skills_go_text
              = Inr (JArr [JObj [(''skill'', JStr ''Go'')]])"
    using parse_skills_field_unchecked [of json_loads skills_go_text] loads_go field
    by blast
  show ?thesis
    by (intro conjI loads_number r0 no_list next_call loads_prose fence_prose r1 loads_go r2)
qed




section \<open>Skill persistence: the keys a record must hold\<close>

lemma build_skills_key_error:
  "list_all is_record items \<Longrightarrow> list_ex lacks_key items \<Longrightarrow>
   \<exists>k \<in> set required_keys. snd (build_skills f jid items acc) = Some (KeyError (JStr k))"
proof (induction items arbitrary: acc)
  case Nil
  then show ?case by simp
next
  case (Cons sd items)
  from Cons.prems(1) obtain d where sd: "sd = JObj d" and rest: "list_all is_record items"
    by (cases sd) auto
  show ?case
  proof (cases "lacks_key sd")
    case True
    then show ?thesis
      using sd by (auto simp: required_keys_def split: option.splits)
  next
    case False
    with Cons.prems(2) have "list_ex lacks_key items" by simp
    from Cons.IH [OF rest this] False sd show ?thesis
      by (auto simp: required_keys_def split: option.splits)
  qed
qed

lemma build_skills_all_keys:
  "list_all is_record items \<Longrightarrow> \<not> list_ex lacks_key items \<Longrightarrow>
   snd (build_skills f jid items acc) = None"
proof (induction items arbitrary: acc)
  case Nil
  then show ?case by simp
next
  case (Cons sd items)
  from Cons.prems(1) obtain d where sd: "sd = JObj d" and rest: "list_all is_record items"
    by (cases sd) auto
  from Cons.prems(2) have here: "\<not> lacks_key sd" and later: "\<not> list_ex lacks_key items"
    by simp_all
  from Cons.IH [OF rest later] here sd show ?case
    by (auto simp: required_keys_def split: option.splits)
qed

lemma bulk_create_go:
  "bulk_create w jid (JArr [JObj [(''skill'', JStr ''Go'')]])
     = ([], Inl (KeyError (JStr ''expertise_level'')))"
  by (simp add: bulk_create_def)

text \<open>
  C10. \<^verbatim>\<open>bulk_create\<close> subscripts every record with \<^verbatim>\<open>skill\<close>,
  \<^verbatim>\<open>expertise_level\<close> and \<^verbatim>\<open>priority\<close>: on a list of records of which one lacks a
  key it raises \<^verbatim>\<open>KeyError\<close> for one of the three and commits nothing, and on a list
  of records that hold all three it reaches the commit. The parser does not establish
  this: for the example of the specification it returns a record with the key
  \<^verbatim>\<open>skill\<close> alone, on which \<^verbatim>\<open>bulk_create\<close> raises \<^verbatim>\<open>KeyError\<close> for
  \<^verbatim>\<open>expertise_level\<close>.
\<close>

theorem bulk_create_requires_keys:
  "(list_all is_record items \<and> list_ex lacks_key items \<longrightarrow>
      (\<exists>k \<in> set required_keys.
         snd (bulk_create w jid (JArr items)) = Inl (KeyError (JStr k))) \<and>
      DbCommit \<notin> set (fst (bulk_create w jid (JArr items)))) \<and>
   (list_all is_record items \<and> \<not> list_ex lacks_key items \<longrightarrow>
      DbCommit \<in> set (fst (bulk_create w jid (JArr items)))) \<and>
   parse_skills_response json_loads skills_go_text
     = Inr (JArr [JObj [(''skill'', JStr ''Go'')]]) \<and>
   list_ex lacks_key [JObj [(''skill'', JStr ''Go'')]] \<and>
   snd (bulk_create w jid (JArr [JObj [(''skill'', JStr ''Go'')]]))
     = Inl (KeyError (JStr ''expertise_level''))"
proof (intro conjI impI)
  assume a: "list_all is_record items \<and> list_ex lacks_key items"
  then obtain k where k: "k \<in> set required_keys"
    and e: "snd (build_skills (to_str w) jid items []) = Some (KeyError (JStr k))"
    using build_skills_key_error [of items "to_str w" jid "[]"] by blast
  obtain recs where r: "build_skills (to_str w) jid items [] = (recs, Some (KeyError (JStr k)))"
    using e by (cases "build_skills (to_str w) jid items []") simp
  show "\<exists>k \<in> set required_keys.
          snd (bulk_create w jid (JArr items)) = Inl (KeyError (JStr k))"
    using k r by (auto simp: bulk_create_def)
  show "DbCommit \<notin> set (fst (bulk_create w jid (JArr items)))"
    using r by (auto simp: bulk_create_def)
next
  assume a: "list_all is_record items \<and> \<not> list_ex lacks_key items"
  then have "snd (build_skills (to_str w) jid items []) = None"
    using build_skills_all_keys [of items "to_str w" jid "[]"] by blast
  then obtain recs where r: "build_skills (to_str w) jid items [] = (recs, None)"
    by (cases "build_skills (to_str w) jid items []") simp
  show "DbCommit \<in> set (fst (bulk_create w jid (JArr items)))"
    using r by (auto simp: bulk_create_def split: sum.splits)
next
  show "parse_skills_response json_loads skills_go_text
          = Inr (JArr [JObj [(''skill'', JStr ''Go'')]])"
    using loads_go run_decoded [of json_loads skills_go_text]
    by (simp add: parse_skills_response_def skills_or_empty_def)
next
  show "list_ex lacks_key [JObj [(''skill'', JStr ''Go'')]]"
    by (simp add: required_keys_def)
next
  show "snd (bulk_create w jid (JArr [JObj [(''skill'', JStr ''Go'')]]))
          = Inl (KeyError (JStr ''expertise_level''))"
    by (simp add: bulk_create_go)
qed

theorem bulk_create_requires_keys_witness:
  "list_all is_record [JObj [(''skill'', JStr ''Go'')]] \<and>
   list_ex lacks_key [JObj [(''skill'', JStr ''Go'')]] \<and>
   snd (bulk_create demo_world 7 (JArr [JObj [(''skill'', JStr ''Go'')]]))
     = Inl (KeyError (JStr ''expertise_level'')) \<and>
   DbCommit \<notin> set (fst (bulk_create demo_world 7 (JArr [JObj [(''skill'', JStr ''Go'')]])))"
proof -
  have rec: "list_all is_record [JObj [(''skill'', JStr ''Go'')]]" by simp
  have lack: "list_ex lacks_key [JObj [(''skill'', JStr ''Go'')]]"
    by (simp add: required_keys_def)
  have res: "snd (bulk_create demo_world 7 (JArr [JObj [(''skill'', JStr ''Go'')]]))
               = Inl (KeyError (JStr ''expertise_level''))"
    using bulk_create_requires_keys [of "[JObj [(''skill'', JStr ''Go'')]]" demo_world 7]
    by blast
  have nocommit:
    "DbCommit \<notin> set (fst (bulk_create demo_world 7 (JArr [JObj [(''skill'', JStr ''Go'')]])))"
    using bulk_create_requires_keys [of "[JObj [(''skill'', JStr ''Go'')]]" demo_world 7]
      rec lack by blast
  show ?thesis by (intro conjI rec lack res nocommit)
qed

section \<open>Job offer creation: what is undone and what the caller sees\<close>

lemma created_ids_append: "created_ids (xs @ ys) = created_ids xs @ created_ids ys"
  by (induction xs rule: created_ids.induct) simp_all

lemma removed_ids_append: "removed_ids (xs @ ys) = removed_ids xs @ removed_ids ys"
  by (induction xs rule: removed_ids.induct) simp_all

lemma flows_run_append: "flows_run (xs @ ys) = flows_run xs @ flows_run ys"
  by (induction xs rule: flows_run.induct) simp_all

lemma ids_of_added:
  "created_ids (map DbAdd recs) = [] \<and> removed_ids (map DbAdd recs) = []
   \<and> flows_run (map DbAdd recs) = []"
  by (induction recs) simp_all

lemma bulk_create_ids:
  "created_ids (fst (bulk_create w jid skills)) = [] \<and>
   removed_ids (fst (bulk_create w jid skills)) = [] \<and>
   flows_run (fst (bulk_create w jid skills)) = []"
  by (simp add: bulk_create_def created_ids_append removed_ids_append flows_run_append
        ids_of_added split: sum.splits prod.splits option.splits)

lemma before_create_ids:
  "created_ids (fst (before_create w ttl document)) = [] \<and>
   removed_ids (fst (before_create w ttl document)) = []"
  by (simp add: before_create_def Let_def split: sum.splits prod.splits)

lemma before_create_rejected:
  "process_document (doc w) document = Inl e \<Longrightarrow> before_create w ttl document = ([], Inl e)"
  by (simp add: before_create_def)

lemma create_job_offer_rejected:
  "process_document (doc w) document = Inl e \<Longrightarrow>
   create_job_offer w ttl document
     = ([], Inl (HTTPException 500 [Lit ''Error creating job offer: '', ExnP e]))"
  by (simp add: create_job_offer_def before_create_rejected on_exception_def)

lemma on_exception_unbound:
  "on_exception w None tr e
     = (tr, Inl (HTTPException 500 [Lit ''Error creating job offer: '', ExnP e]))"
  by (simp add: on_exception_def)

lemma on_exception_bound:
  "\<exists>e'. on_exception w (Some jo) tr e = (tr @ [RepoRemove (jo_id jo)], Inl e')"
  by (simp add: on_exception_def split: sum.splits)

lemmas document_eval = process_document_def validate_document_type_def
  ALLOWED_DOCUMENT_TYPES_def extract_text_from_document_def lower_def lower_char_def
  ascii_decode_def strip_def is_space_def pages_lib_def

lemma process_text_document:
  "process_document (pages_lib ts) text_document = Inr (''Go developer wanted'', 19 / 1024)"
  by (simp add: document_eval text_document_def)

lemma run_flow_server:
  "run ld flow_server demo_client f inputs False
     = Inr (Result (envelope (JStr skills_go_text)))"
  by (simp add: run_def request_def open_client_def flow_server_def demo_client_def
        is_success_def)

lemma run_failing_server:
  "run ld failing_server demo_client f inputs False
     = Inl (LangflowError [IntP 500, Lit '' - '', Lit ''Internal Server Error'']
              (Some response_500))"
  by (simp add: run_def request_def open_client_def failing_server_def demo_client_def
        is_success_def response_500_def)

lemma envelope_text_envelope: "envelope_text (Result (envelope v)) = Inr v"
  by (simp add: envelope_text_def envelope_def)

lemma before_create_demo:
  "before_create demo_world ''Engineer'' text_document
     = ([Upload ''job_offers'', RunFlow ''summary-flow'', RunFlow ''skills-flow''],
        Inr (\<lparr> title = ''Engineer'', summary = Some skills_go_text,
                storage_url = Some ''3f0c.txt'' \<rparr>,
             JStr skills_go_text, JStr skills_go_text))"
  by (simp add: before_create_def demo_world_def process_text_document run_flow_server
        envelope_text_envelope JobOfferCreate_init_def)

lemma before_create_down:
  "before_create down_world ''Engineer'' text_document
     = ([Upload ''job_offers'', RunFlow ''summary-flow''],
        Inl (LangflowError [IntP 500, Lit '' - '', Lit ''Internal Server Error'']
               (Some response_500)))"
  by (simp add: before_create_def down_world_def demo_world_def process_text_document
        run_failing_server)

lemma create_job_offer_demo:
  "create_job_offer demo_world ''Engineer'' text_document
     = ([Upload ''job_offers'', RunFlow ''summary-flow'', RunFlow ''skills-flow'',
         RepoCreate \<lparr> title = ''Engineer'', summary = Some skills_go_text,
                      storage_url = Some ''3f0c.txt'' \<rparr>
           (Inr \<lparr> jo_id = 7, jo_title = ''Engineer'' \<rparr>),
         RepoRemove 7],
        Inl (HTTPException 500
               [Lit ''Error creating job offer: '',
                ExnP (KeyError (JStr ''expertise_level''))]))"
proof -
  have parsed: "parse_skills_of json_loads (JStr skills_go_text)
                  = Inr (JArr [JObj [(''skill'', JStr ''Go'')]])"
    using loads_go run_decoded [of json_loads skills_go_text]
    by (simp add: parse_skills_of_def parse_skills_response_def skills_or_empty_def)
  have w: "loads demo_world = json_loads"
    "repo_create demo_world = (\<lambda>obj_in. Inr \<lparr> jo_id = 7, jo_title = title obj_in \<rparr>)"
    "repo_remove demo_world = (\<lambda>i. Inr ())"
    by (simp_all add: demo_world_def)
  show ?thesis
    by (simp add: create_job_offer_def before_create_demo w parsed bulk_create_go
          on_exception_def)
qed

lemma create_job_offer_down:
  "create_job_offer down_world ''Engineer'' text_document
     = ([Upload ''job_offers'', RunFlow ''summary-flow''],
        Inl (HTTPException 500
               [Lit ''Error creating job offer: '',
                ExnP (LangflowError [IntP 500, Lit '' - '', Lit ''Internal Server Error'']
                        (Some response_500))]))"
  by (simp add: create_job_offer_def before_create_down on_exception_def)

lemma validate_document_type_error:
  "validate_document_type document = Inl e \<Longrightarrow>
   e = HTTPException 400 [Lit ''File must be a PDF, Word document or a text file'']"
  by (simp add: validate_document_type_def split: if_splits)

lemma extract_text_from_document_error:
  "snd (extract_text_from_document lib document) = Inl e \<Longrightarrow>
   \<exists>m. e = DocumentProcessingError m"
  by (auto simp: extract_text_from_document_def Let_def
      split: option.splits if_splits sum.splits prod.splits)

text \<open>
  C2. When the route fails after the repository has created the record, the last thing
  it does before the failure leaves it is to remove that record, and it removes nothing
  else; when it fails before the record is created, it removes nothing. A run that
  succeeds removes nothing either.
\<close>

theorem compensating_delete:
  "(snd (create_job_offer w ttl document) = Inl e \<longrightarrow>
      (case created_ids (fst (create_job_offer w ttl document)) of
         [] \<Rightarrow> removed_ids (fst (create_job_offer w ttl document)) = []
       | i # others \<Rightarrow>
           others = [] \<and> removed_ids (fst (create_job_offer w ttl document)) = [i] \<and>
           last (fst (create_job_offer w ttl document)) = RepoRemove i)) \<and>
   (snd (create_job_offer w ttl document) = Inr v \<longrightarrow>
      removed_ids (fst (create_job_offer w ttl document)) = [])"
proof -
  obtain tr0 r0 where bc: "before_create w ttl document = (tr0, r0)"
    by (cases "before_create w ttl document")
  have ids0: "created_ids tr0 = []" "removed_ids tr0 = []"
    using before_create_ids [of w ttl document] bc by simp_all
  show ?thesis
  proof (cases r0)
    case (Inl e0)
    then show ?thesis
      using bc ids0 by (simp add: create_job_offer_def on_exception_unbound)
  next
    case (Inr prepared)
    obtain obj_in summary_text skills_text
      where prepared: "prepared = (obj_in, summary_text, skills_text)"
      by (cases prepared)
    show ?thesis
    proof (cases "repo_create w obj_in")
      case (Inl e1)
      then show ?thesis
        using bc Inr prepared ids0
        by (simp add: create_job_offer_def on_exception_unbound created_ids_append
              removed_ids_append)
    next
      case created: (Inr jo)
      let ?tr3 = "tr0 @ [RepoCreate obj_in (Inr jo)]"
      have ids3: "created_ids ?tr3 = [jo_id jo]" "removed_ids ?tr3 = []"
        using ids0 by (simp_all add: created_ids_append removed_ids_append)
      show ?thesis
      proof (cases "parse_skills_of (loads w) skills_text")
        case (Inl e2)
        obtain e' where h: "on_exception w (Some jo) ?tr3 e2
                             = (?tr3 @ [RepoRemove (jo_id jo)], Inl e')"
          using on_exception_bound [of w jo ?tr3 e2] by blast
        have "create_job_offer w ttl document = (?tr3 @ [RepoRemove (jo_id jo)], Inl e')"
          using bc Inr prepared created Inl h by (simp add: create_job_offer_def)
        then show ?thesis
          using ids3 by (simp add: created_ids_append removed_ids_append)
      next
        case parsed: (Inr skills)
        obtain tr4 r4 where bulk: "bulk_create w (jo_id jo) skills = (tr4, r4)"
          by (cases "bulk_create w (jo_id jo) skills")
        have ids4: "created_ids tr4 = []" "removed_ids tr4 = []"
          using bulk_create_ids [of w "jo_id jo" skills] bulk by simp_all
        show ?thesis
        proof (cases r4)
          case (Inl e3)
          obtain e' where h: "on_exception w (Some jo) (?tr3 @ tr4) e3
                               = ((?tr3 @ tr4) @ [RepoRemove (jo_id jo)], Inl e')"
            using on_exception_bound [of w jo "?tr3 @ tr4" e3] by blast
          have "create_job_offer w ttl document
                  = ((?tr3 @ tr4) @ [RepoRemove (jo_id jo)], Inl e')"
            using bc Inr prepared created parsed bulk Inl h
            by (simp add: create_job_offer_def)
          then show ?thesis
            using ids3 ids4 by (simp add: created_ids_append removed_ids_append)
        next
          case stored: (Inr db_skills)
          have "\<exists>v. create_job_offer w ttl document = (?tr3 @ tr4, Inr v)"
            using bc Inr prepared created parsed bulk stored
            by (simp add: create_job_offer_def)
          then show ?thesis
            using ids3 ids4 by (auto simp: created_ids_append removed_ids_append)
        qed
      qed
    qed
  qed
qed

theorem compensating_delete_witness:
  "snd (create_job_offer demo_world ''Engineer'' text_document)
     = Inl (HTTPException 500
              [Lit ''Error creating job offer: '',
               ExnP (KeyError (JStr ''expertise_level''))]) \<and>
   created_ids (fst (create_job_offer demo_world ''Engineer'' text_document)) = [7] \<and>
   removed_ids (fst (create_job_offer demo_world ''Engineer'' text_document)) = [7] \<and>
   last (fst (create_job_offer demo_world ''Engineer'' text_document)) = RepoRemove 7 \<and>
   snd (create_job_offer down_world ''Engineer'' text_document)
     = Inl (HTTPException 500
              [Lit ''Error creating job offer: '',
               ExnP (LangflowError [IntP 500, Lit '' - '', Lit ''Internal Server Error'']
                       (Some response_500))]) \<and>
   created_ids (fst (create_job_offer down_world ''Engineer'' text_document)) = [] \<and>
   removed_ids (fst (create_job_offer down_world ''Engineer'' text_document)) = []"
  using compensating_delete [of demo_world "''Engineer''" text_document]
    compensating_delete [of down_world "''Engineer''" text_document]
  by (simp add: create_job_offer_demo create_job_offer_down)

text \<open>
  C1. \<^verbatim>\<open>process_document\<close> refuses a document whose declared type is not allowed
  with HTTP 400, and turns a failure of the extraction into HTTP 400 as well. The route
  catches these with every other exception: whatever \<^verbatim>\<open>process_document\<close> raised,
  the caller is answered HTTP 500 with the refusal as its detail, and not the client
  error the route lists among its responses.
\<close>

theorem rejected_document_surfaces_as_500:
  "(validate_document_type document = Inl e \<longrightarrow>
      e = HTTPException 400 [Lit ''File must be a PDF, Word document or a text file''] \<and>
      process_document lib document = Inl e) \<and>
   (validate_document_type document = Inr () \<and>
    snd (extract_text_from_document lib document) = Inl e' \<longrightarrow>
      process_document lib document = Inl (HTTPException 400 [ExnP e'])) \<and>
   (process_document (doc w) document = Inl e'' \<longrightarrow>
      create_job_offer w ttl document
        = ([], Inl (HTTPException 500 [Lit ''Error creating job offer: '', ExnP e''])) \<and>
      http_status (HTTPException 500 [Lit ''Error creating job offer: '', ExnP e'']) = 500 \<and>
      \<not> is_client_error 500)"
proof (intro conjI impI)
  assume v: "validate_document_type document = Inl e"
  show e: "e = HTTPException 400 [Lit ''File must be a PDF, Word document or a text file'']"
    using validate_document_type_error [OF v] .
  show "process_document lib document = Inl e"
    using v e by (simp add: process_document_def)
next
  assume a: "validate_document_type document = Inr () \<and>
             snd (extract_text_from_document lib document) = Inl e'"
  then obtain m where m: "e' = DocumentProcessingError m"
    using extract_text_from_document_error [of lib document e'] by blast
  show "process_document lib document = Inl (HTTPException 400 [ExnP e'])"
    using a m by (simp add: process_document_def)
next
  assume p: "process_document (doc w) document = Inl e''"
  show "create_job_offer w ttl document
          = ([], Inl (HTTPException 500 [Lit ''Error creating job offer: '', ExnP e'']))"
    using create_job_offer_rejected [OF p] .
  show "http_status (HTTPException 500 [Lit ''Error creating job offer: '', ExnP e'']) = 500"
    by simp
  show "\<not> is_client_error 500"
    by (simp add: is_client_error_def)
qed

theorem rejected_document_surfaces_as_500_witness:
  "validate_document_type png_document
     = Inl (HTTPException 400 [Lit ''File must be a PDF, Word document or a text file'']) \<and>
   process_document (doc demo_world) png_document
     = Inl (HTTPException 400 [Lit ''File must be a PDF, Word document or a text file'']) \<and>
   create_job_offer demo_world ''Engineer'' png_document
     = ([], Inl (HTTPException 500
                   [Lit ''Error creating job offer: '',
                    ExnP (HTTPException 400
                            [Lit ''File must be a PDF, Word document or a text file''])])) \<and>
   validate_document_type undecodable_document = Inr () \<and>
   snd (extract_text_from_document (doc demo_world) undecodable_document)
     = Inl (DocumentProcessingError
              [Lit ''Error extracting text from document: '', ExnP UnicodeDecodeError]) \<and>
   process_document (doc demo_world) undecodable_document
     = Inl (HTTPException 400
              [ExnP (DocumentProcessingError
                       [Lit ''Error extracting text from document: '',
                        ExnP UnicodeDecodeError])]) \<and>
   create_job_offer demo_world ''Engineer'' undecodable_document
     = ([], Inl (HTTPException 500
                   [Lit ''Error creating job offer: '',
                    ExnP (HTTPException 400
                            [ExnP (DocumentProcessingError
                                     [Lit ''Error extracting text from document: '',
                                      ExnP UnicodeDecodeError])])]))"
proof -
  let ?bad = "HTTPException 400 [Lit ''File must be a PDF, Word document or a text file'']"
  let ?dpe = "DocumentProcessingError
                [Lit ''Error extracting text from document: '', ExnP UnicodeDecodeError]"
  have v1: "validate_document_type png_document = Inl ?bad"
    by (simp add: validate_document_type_def ALLOWED_DOCUMENT_TYPES_def png_document_def)
  have p1: "process_document (doc demo_world) png_document = Inl ?bad"
    using rejected_document_surfaces_as_500 [of png_document ?bad "doc demo_world"] v1
    by blast
  have c1: "create_job_offer demo_world ''Engineer'' png_document
              = ([], Inl (HTTPException 500 [Lit ''Error creating job offer: '', ExnP ?bad]))"
    using rejected_document_surfaces_as_500 [of png_document _ _ _ demo_world ?bad] p1
    by blast
  have v2: "validate_document_type undecodable_document = Inr ()"
    by (simp add: validate_document_type_def ALLOWED_DOCUMENT_TYPES_def
          undecodable_document_def)
  have x2: "snd (extract_text_from_document (doc demo_world) undecodable_document) = Inl ?dpe"
    by (simp add: demo_world_def document_eval undecodable_document_def)
  have p2: "process_document (doc demo_world) undecodable_document
              = Inl (HTTPException 400 [ExnP ?dpe])"
    using rejected_document_surfaces_as_500
            [of undecodable_document _ "doc demo_world" ?dpe] v2 x2
    by blast
  have c2: "create_job_offer demo_world ''Engineer'' undecodable_document
              = ([], Inl (HTTPException 500
                            [Lit ''Error creating job offer: '',
                             ExnP (HTTPException 400 [ExnP ?dpe])]))"
    using rejected_document_surfaces_as_500
            [of undecodable_document _ _ _ demo_world "HTTPException 400 [ExnP ?dpe]"] p2
    by blast
  show ?thesis by (intro conjI v1 p1 c1 v2 x2 p2 c2)
qed

text \<open>
  C9. A document whose extracted text is empty after stripping is refused by
  \<^verbatim>\<open>process_document\<close> with HTTP 400, and the route does nothing else: no upload,
  no flow. The route answers the caller HTTP 500 around that refusal.
\<close>

theorem blank_text_rejected_before_flows:
  assumes "validate_document_type document = Inr ()"
    and "snd (extract_text_from_document (doc w) document) = Inr extracted_text"
    and "strip extracted_text = []"
  shows "process_document (doc w) document
           = Inl (HTTPException 400 [Lit ''Could not extract text from document'']) \<and>
         fst (create_job_offer w ttl document) = [] \<and>
         flows_run (fst (create_job_offer w ttl document)) = [] \<and>
         snd (create_job_offer w ttl document)
           = Inl (HTTPException 500
                    [Lit ''Error creating job offer: '',
                     ExnP (HTTPException 400
                             [Lit ''Could not extract text from document''])]) \<and>
         http_status (HTTPException 500
                        [Lit ''Error creating job offer: '',
                         ExnP (HTTPException 400
                                 [Lit ''Could not extract text from document''])]) = 500"
proof -
  have p: "process_document (doc w) document
             = Inl (HTTPException 400 [Lit ''Could not extract text from document''])"
    using assms by (simp add: process_document_def)
  show ?thesis
    using p create_job_offer_rejected [OF p, of ttl] by simp
qed

theorem blank_text_rejected_before_flows_witness:
  "validate_document_type blank_document = Inr () \<and>
   snd (extract_text_from_document (doc demo_world) blank_document)
     = Inr [CHR '' '', CHR 0x0A, CHR '' ''] \<and>
   strip [CHR '' '', CHR 0x0A, CHR '' ''] = [] \<and>
   process_document (doc demo_world) blank_document
     = Inl (HTTPException 400 [Lit ''Could not extract text from document'']) \<and>
   create_job_offer demo_world ''Engineer'' blank_document
     = ([], Inl (HTTPException 500
                   [Lit ''Error creating job offer: '',
                    ExnP (HTTPException 400
                            [Lit ''Could not extract text from document''])]))"
proof -
  have v: "validate_document_type blank_document = Inr ()"
    by (simp add: validate_document_type_def ALLOWED_DOCUMENT_TYPES_def blank_document_def)
  have x: "snd (extract_text_from_document (doc demo_world) blank_document)
             = Inr [CHR '' '', CHR 0x0A, CHR '' '']"
    by (simp add: demo_world_def document_eval blank_document_def)
  have s: "strip [CHR '' '', CHR 0x0A, CHR '' ''] = []"
    by (simp add: strip_def is_space_def)
  note main = blank_text_rejected_before_flows [OF v x s, of "''Engineer''"]
  have p: "process_document (doc demo_world) blank_document
             = Inl (HTTPException 400 [Lit ''Could not extract text from document''])"
    using main by blast
  have c: "create_job_offer demo_world ''Engineer'' blank_document
             = ([], Inl (HTTPException 500
                           [Lit ''Error creating job offer: '',
                            ExnP (HTTPException 400
                                    [Lit ''Could not extract text from document''])]))"
    using main by (simp add: prod_eq_iff)
  show ?thesis by (intro conjI v x s p c)
qed

end
